theory Spec2Isabelle
  imports Main
begin

section \<open>Bucket operations of an erasure set (cmd/erasure-bucket.go)\<close>

text \<open>
  The file coordinates three bucket operations (make, stat, delete) over the disks of one
  erasure set: every operation runs one storage call per disk, collects one error per
  slot, and reduces the error vector to a single outcome.

  Conventions of the embedding:
  \<^item> a Go \<^verbatim>\<open>error\<close> is an \<open>err option\<close>, \<open>None\<close> being \<^verbatim>\<open>nil\<close>; the storage errors
    are the sentinel values of the package, so \<^verbatim>\<open>errors.Is(err, x)\<close> and \<^verbatim>\<open>err == x\<close>
    are both equality (wrapped errors are not modelled);
  \<^item> a disk handle is a slot of the list \<open>disks\<close>: \<open>None\<close> is the \<^verbatim>\<open>nil\<close> handle, \<open>Some d\<close> a
    live disk in state \<open>d\<close>; the methods of the \<^verbatim>\<open>StorageAPI\<close> interface are parameters
    (fields of \<open>env\<close>) that take the state of the disk and return the new one;
  \<^item> every storage call, log line and namespace notification is appended to \<open>trace\<close>, and
    so is every entry into \<^verbatim>\<open>undoDeleteBucket\<close>;
  \<^item> the goroutines of one fan-out touch disjoint slots; they are run one after the other
    in index order, and \<^verbatim>\<open>g.Wait()\<close> reads the error vector once all of them have run;
  \<^item> \<^verbatim>\<open>ctx\<close> is left out (cancellation is not modelled), and so is the argument
    \<^verbatim>\<open>opts BucketOptions\<close> of MakeBucketWithLocation, which the body never reads.
\<close>

subsection \<open>Errors and data\<close>

datatype err =
    errDiskNotFound
  | errFaultyDisk
  | errFaultyRemoteDisk
  | errDiskAccessDenied
  | errUnformattedDisk
  | errVolumeExists
  | errVolumeNotFound
  | errVolumeNotEmpty
  | errErasureWriteQuorum
  | errErasureReadQuorum
  | errOther string

text \<open>The errors a bucket operation hands to its caller: \<^verbatim>\<open>BucketNameInvalid\<close> is built in
  this file, the others are the results of \<^verbatim>\<open>toObjectErr\<close>.\<close>

datatype objErr =
    BucketNameInvalid string
  | BucketNotFound string
  | BucketNotEmpty string
  | BucketExists string
  | InsufficientWriteQuorum
  | InsufficientReadQuorum
  | StorageErr err

record VolInfo =
  Name :: string
  Created :: int

text \<open>\<^verbatim>\<open>BucketInfo(volInfo)\<close> converts between two structs of the same fields.\<close>

type_synonym BucketInfo = VolInfo

record DeleteBucketOptions =
  Force :: bool
  NoRecreate :: bool

datatype event =
    EMakeVol nat string
  | EStatVol nat string
  | EDeleteVol nat string bool
  | ERenameFile nat string string string string
  | ELogIf err
  | ENSUpdated string string
  | EUndoDeleteBucket string

record 'd world =
  disks :: "'d option list"
  trace :: "event list"
  uuidCount :: nat

text \<open>What the file calls and does not define: the \<^verbatim>\<open>StorageAPI\<close> methods of a disk, the
  bucket name check of minio-go, the quorum policy, the translation of a storage error
  to an object-layer error, and the UUID generator (the n-th UUID drawn).\<close>

record 'd env =
  MakeVol :: "'d \<Rightarrow> string \<Rightarrow> err option \<times> 'd"
  StatVol :: "'d \<Rightarrow> string \<Rightarrow> (err + VolInfo) \<times> 'd"
  DeleteVol :: "'d \<Rightarrow> string \<Rightarrow> bool \<Rightarrow> err option \<times> 'd"
  RenameFile :: "'d \<Rightarrow> string \<Rightarrow> string \<Rightarrow> string \<Rightarrow> string \<Rightarrow> err option \<times> 'd"
  CheckValidBucketNameStrict :: "string \<Rightarrow> string option"
  getWriteQuorum :: "nat \<Rightarrow> nat"
  getReadQuorum :: "nat \<Rightarrow> nat"
  toObjectErr :: "err \<Rightarrow> string \<Rightarrow> objErr"
  mustGetUUID :: "nat \<Rightarrow> string"

text \<open>Modelled from the spec: \<^verbatim>\<open>toObjectErr\<close> is declared elsewhere in the package; it
  translates an aggregate error into a domain-level outcome at the workflow boundary,
  and a \<^verbatim>\<open>nil\<close> aggregate is success.\<close>

definition toObjectErr' :: "'d env \<Rightarrow> err option \<Rightarrow> string \<Rightarrow> objErr option" where
  "toObjectErr' env e bucket =
     (case e of None \<Rightarrow> None | Some x \<Rightarrow> Some (toObjectErr env x bucket))"

text \<open>Modelled from the spec: the constants \<^verbatim>\<open>slashSeparator\<close> and
  \<^verbatim>\<open>minioMetaTmpDeletedBucket\<close> (the holding area for deleted buckets) are declared
  elsewhere in the package.\<close>

definition slashSeparator :: string where
  "slashSeparator = ''/''"

definition minioMetaTmpDeletedBucket :: string where
  "minioMetaTmpDeletedBucket = ''.minio.sys/tmp/.trash''"

subsection \<open>Ignored errors\<close>

text \<open>Modelled from the spec: \<^verbatim>\<open>baseIgnoredErrs\<close> is declared elsewhere in the package;
  it holds the errors of a slot that is absent or unreachable.\<close>

definition baseIgnoredErrs :: "err list" where
  "baseIgnoredErrs = [errDiskNotFound, errFaultyDisk, errFaultyRemoteDisk]"

definition bucketOpIgnoredErrs :: "err list" where
  "bucketOpIgnoredErrs = baseIgnoredErrs @ [errDiskAccessDenied, errUnformattedDisk]"

definition bucketMetadataOpIgnoredErrs :: "err list" where
  "bucketMetadataOpIgnoredErrs = bucketOpIgnoredErrs @ [errVolumeNotFound]"

subsection \<open>Quorum reduction\<close>

text \<open>Modelled from the spec: \<^verbatim>\<open>reduceWriteQuorumErrs\<close> and \<^verbatim>\<open>reduceReadQuorumErrs\<close> are
  declared elsewhere in the package. The slots are partitioned into success, ignored
  error and real error. When the successes reach the quorum the outcome is \<^verbatim>\<open>nil\<close>.
  Otherwise the dominant real error (the kind on the largest number of slots, the lowest
  slot index winning a tie) is returned when its count reaches the quorum, and the
  quorum sentinel is returned when it does not.\<close>

definition realErrs :: "err option list \<Rightarrow> err list \<Rightarrow> err list" where
  "realErrs errs ignoredErrs =
     concat (map (\<lambda>e. case e of None \<Rightarrow> [] | Some x \<Rightarrow> if x \<in> set ignoredErrs then [] else [x]) errs)"

definition dominantStep :: "err list \<Rightarrow> (err \<times> nat) option \<Rightarrow> err \<Rightarrow> (err \<times> nat) option" where
  "dominantStep xs best x =
     (case best of
        None \<Rightarrow> Some (x, count_list xs x)
      | Some (e, c) \<Rightarrow> if c < count_list xs x then Some (x, count_list xs x) else Some (e, c))"

definition dominantErr :: "err list \<Rightarrow> (err \<times> nat) option" where
  "dominantErr xs = foldl (dominantStep xs) None xs"

definition reduceQuorumErrs :: "err option list \<Rightarrow> err list \<Rightarrow> nat \<Rightarrow> err \<Rightarrow> err option" where
  "reduceQuorumErrs errs ignoredErrs quorum quorumErr =
     (if quorum \<le> count_list errs None then None
      else (case dominantErr (realErrs errs ignoredErrs) of
              None \<Rightarrow> Some quorumErr
            | Some (e, c) \<Rightarrow> if quorum \<le> c then Some e else Some quorumErr))"

definition reduceWriteQuorumErrs :: "err option list \<Rightarrow> err list \<Rightarrow> nat \<Rightarrow> err option" where
  "reduceWriteQuorumErrs errs ignoredErrs writeQuorum =
     reduceQuorumErrs errs ignoredErrs writeQuorum errErasureWriteQuorum"

definition reduceReadQuorumErrs :: "err option list \<Rightarrow> err list \<Rightarrow> nat \<Rightarrow> err option" where
  "reduceReadQuorumErrs errs ignoredErrs readQuorum =
     reduceQuorumErrs errs ignoredErrs readQuorum errErasureReadQuorum"

subsection \<open>The error group\<close>

text \<open>Modelled from the spec: the package \<^verbatim>\<open>errgroup\<close> is not part of this file.
  \<^verbatim>\<open>WithNErrs n\<close> is a group of \<open>n\<close> error slots, all \<^verbatim>\<open>nil\<close>; \<^verbatim>\<open>Go f index\<close> runs \<open>f\<close> and
  stores its error in slot \<open>index\<close>; \<^verbatim>\<open>Wait\<close> returns the error vector once every task
  has finished. A task is a function of the shared state.\<close>

type_synonym Group = "err option list"

definition WithNErrs :: "nat \<Rightarrow> Group" where
  "WithNErrs n = replicate n None"

definition Go :: "('s \<Rightarrow> err option \<times> 's) \<Rightarrow> nat \<Rightarrow> Group \<times> 's \<Rightarrow> Group \<times> 's" where
  "Go f index gs = (case f (snd gs) of (e, s') \<Rightarrow> ((fst gs)[index := e], s'))"

definition Wait :: "Group \<Rightarrow> err option list" where
  "Wait g = g"

subsection \<open>Side effects\<close>

definition logIf :: "err \<Rightarrow> 'd world \<Rightarrow> 'd world" where
  "logIf e w = w\<lparr>trace := trace w @ [ELogIf e]\<rparr>"

definition NSUpdated :: "string \<Rightarrow> string \<Rightarrow> 'd world \<Rightarrow> 'd world" where
  "NSUpdated bucket prefix w = w\<lparr>trace := trace w @ [ENSUpdated bucket prefix]\<rparr>"

text \<open>The effect of one storage call on slot \<open>index\<close>: the disk moves to its new state and
  the call is recorded.\<close>

definition called :: "nat \<Rightarrow> 'd \<Rightarrow> event \<Rightarrow> 'd world \<Rightarrow> 'd world" where
  "called index d' ev w = w\<lparr>disks := (disks w)[index := Some d'], trace := trace w @ [ev]\<rparr>"

subsection \<open>MakeBucketWithLocation\<close>

definition MakeBucket_task :: "'d env \<Rightarrow> string \<Rightarrow> nat \<Rightarrow> 'd world \<Rightarrow> err option \<times> 'd world" where
  "MakeBucket_task env bucket index w =
     (case disks w ! index of
        Some d \<Rightarrow>
          (case MakeVol env d bucket of
             (Some e, d') \<Rightarrow>
               (let w' = called index d' (EMakeVol index bucket) w
                in (Some e, if e \<noteq> errVolumeExists then logIf e w' else w'))
           | (None, d') \<Rightarrow> (None, called index d' (EMakeVol index bucket) w))
      | None \<Rightarrow> (Some errDiskNotFound, w))"

definition MakeBucket_fanout :: "'d env \<Rightarrow> string \<Rightarrow> 'd world \<Rightarrow> err option list \<times> 'd world" where
  "MakeBucket_fanout env bucket w =
     (let n = length (disks w);
          (g, w') = fold (\<lambda>index. Go (MakeBucket_task env bucket index) index) [0..<n] (WithNErrs n, w)
      in (Wait g, w'))"

definition MakeBucketWithLocation :: "'d env \<Rightarrow> string \<Rightarrow> 'd world \<Rightarrow> objErr option \<times> 'd world" where
  "MakeBucketWithLocation env bucket w =
     (case CheckValidBucketNameStrict env bucket of
        Some e \<Rightarrow> (Some (BucketNameInvalid bucket), NSUpdated bucket slashSeparator w)
      | None \<Rightarrow>
          (let (errs, w') = MakeBucket_fanout env bucket w;
               writeQuorum = getWriteQuorum env (length (disks w));
               e = reduceWriteQuorumErrs errs bucketOpIgnoredErrs writeQuorum
           in (toObjectErr' env e bucket, NSUpdated bucket slashSeparator w')))"

subsection \<open>undoDeleteBucket\<close>

definition undoDeleteBucket_task :: "'d env \<Rightarrow> string \<Rightarrow> nat \<Rightarrow> 'd world \<Rightarrow> err option \<times> 'd world" where
  "undoDeleteBucket_task env bucket index w =
     (case disks w ! index of
        Some d \<Rightarrow> (case MakeVol env d bucket of (_, d') \<Rightarrow> (None, called index d' (EMakeVol index bucket) w))
      | None \<Rightarrow> (None, w))"

definition undoDeleteBucket_group :: "'d env \<Rightarrow> string \<Rightarrow> 'd world \<Rightarrow> err option list \<times> 'd world" where
  "undoDeleteBucket_group env bucket w =
     (let n = length (disks w);
          (g, w') = fold (\<lambda>index gs.
                       if disks (snd gs) ! index = None then gs
                       else Go (undoDeleteBucket_task env bucket index) index gs)
                     [0..<n] (WithNErrs n, w\<lparr>trace := trace w @ [EUndoDeleteBucket bucket]\<rparr>)
      in (Wait g, w'))"

definition undoDeleteBucket :: "'d env \<Rightarrow> string \<Rightarrow> 'd world \<Rightarrow> 'd world" where
  "undoDeleteBucket env bucket w = snd (undoDeleteBucket_group env bucket w)"

subsection \<open>getBucketInfo and GetBucketInfo\<close>

definition zeroBucketInfo :: BucketInfo where
  "zeroBucketInfo = \<lparr>Name = [], Created = 0\<rparr>"

definition getBucketInfo_task ::
  "'d env \<Rightarrow> string \<Rightarrow> nat \<Rightarrow> BucketInfo list \<times> 'd world \<Rightarrow> err option \<times> BucketInfo list \<times> 'd world" where
  "getBucketInfo_task env bucketName index s =
     (case s of (bucketsInfo, w) \<Rightarrow>
        (case disks w ! index of
           None \<Rightarrow> (Some errDiskNotFound, bucketsInfo, w)
         | Some d \<Rightarrow>
             (case StatVol env d bucketName of
                (Inl e, d') \<Rightarrow> (Some e, bucketsInfo, called index d' (EStatVol index bucketName) w)
              | (Inr volInfo, d') \<Rightarrow>
                  (None, bucketsInfo[index := volInfo], called index d' (EStatVol index bucketName) w))))"

definition getBucketInfo_fanout ::
  "'d env \<Rightarrow> string \<Rightarrow> 'd world \<Rightarrow> err option list \<times> BucketInfo list \<times> 'd world" where
  "getBucketInfo_fanout env bucketName w =
     (let n = length (disks w);
          (g, s) = fold (\<lambda>index. Go (getBucketInfo_task env bucketName index) index) [0..<n]
                     (WithNErrs n, replicate n zeroBucketInfo, w)
      in (Wait g, s))"

text \<open>The loop over \<^verbatim>\<open>errs\<close> that returns at the first \<^verbatim>\<open>nil\<close>; \<open>i\<close> is the index of the head
  of the list.\<close>

fun firstSuccess :: "nat \<Rightarrow> err option list \<Rightarrow> nat option" where
  "firstSuccess i [] = None"
| "firstSuccess i (e # es) = (if e = None then Some i else firstSuccess (Suc i) es)"

definition getBucketInfo :: "'d env \<Rightarrow> string \<Rightarrow> 'd world \<Rightarrow> (BucketInfo \<times> err option) \<times> 'd world" where
  "getBucketInfo env bucketName w =
     (let (errs, bucketsInfo, w') = getBucketInfo_fanout env bucketName w
      in (case firstSuccess 0 errs of
            Some i \<Rightarrow> ((bucketsInfo ! i, None), w')
          | None \<Rightarrow>
              (let readQuorum = getReadQuorum env (length (disks w))
               in ((zeroBucketInfo, reduceReadQuorumErrs errs [] readQuorum), w'))))"

definition GetBucketInfo :: "'d env \<Rightarrow> string \<Rightarrow> 'd world \<Rightarrow> (BucketInfo \<times> objErr option) \<times> 'd world" where
  "GetBucketInfo env bucket w =
     (case getBucketInfo env bucket w of
        ((bucketInfo, Some e), w') \<Rightarrow> ((zeroBucketInfo, toObjectErr' env (Some e) bucket), w')
      | ((bucketInfo, None), w') \<Rightarrow> ((bucketInfo, None), w'))"

subsection \<open>DeleteBucket\<close>

definition DeleteBucket_task :: "'d env \<Rightarrow> string \<Rightarrow> bool \<Rightarrow> nat \<Rightarrow> 'd world \<Rightarrow> err option \<times> 'd world" where
  "DeleteBucket_task env bucket force index w =
     (case disks w ! index of
        Some d \<Rightarrow>
          (case DeleteVol env d bucket force of
             (e, d') \<Rightarrow> (e, called index d' (EDeleteVol index bucket force) w))
      | None \<Rightarrow> (Some errDiskNotFound, w))"

definition DeleteBucket_fanout :: "'d env \<Rightarrow> string \<Rightarrow> bool \<Rightarrow> 'd world \<Rightarrow> err option list \<times> 'd world" where
  "DeleteBucket_fanout env bucket force w =
     (let n = length (disks w);
          (g, w') = fold (\<lambda>index. Go (DeleteBucket_task env bucket force index) index) [0..<n] (WithNErrs n, w)
      in (Wait g, w'))"

text \<open>The loop of the force branch: it returns at the first error, after rolling back.\<close>

fun DeleteBucket_force :: "'d env \<Rightarrow> string \<Rightarrow> err option list \<Rightarrow> 'd world \<Rightarrow> objErr option \<times> 'd world" where
  "DeleteBucket_force env bucket [] w = (None, w)"
| "DeleteBucket_force env bucket (e # es) w =
     (if e \<noteq> None then (toObjectErr' env e bucket, undoDeleteBucket env bucket w)
      else DeleteBucket_force env bucket es w)"

text \<open>One round of the loop that moves the buckets left behind into the holding area;
  the result of \<^verbatim>\<open>RenameFile\<close> is dropped.\<close>

definition purgeStep :: "'d env \<Rightarrow> string \<Rightarrow> err option list \<Rightarrow> nat \<Rightarrow> bool \<times> 'd world \<Rightarrow> bool \<times> 'd world" where
  "purgeStep env bucket dErrs index s =
     (case s of (purgedDangling, w) \<Rightarrow>
        (case disks w ! index of
           Some d \<Rightarrow>
             if dErrs ! index = Some errVolumeNotEmpty then
               (let uuid = mustGetUUID env (uuidCount w);
                    (_, d') = RenameFile env d bucket [] minioMetaTmpDeletedBucket uuid
                in (True, (called index d' (ERenameFile index bucket [] minioMetaTmpDeletedBucket uuid) w)
                            \<lparr>uuidCount := Suc (uuidCount w)\<rparr>))
             else (purgedDangling, w)
         | None \<Rightarrow> (purgedDangling, w)))"

definition DeleteBucket_quorum ::
  "'d env \<Rightarrow> string \<Rightarrow> bool \<Rightarrow> err option list \<Rightarrow> 'd world \<Rightarrow> objErr option \<times> 'd world" where
  "DeleteBucket_quorum env bucket noRecreate dErrs w =
     (let writeQuorum = getWriteQuorum env (length (disks w));
          e = reduceWriteQuorumErrs dErrs bucketOpIgnoredErrs writeQuorum;
          w1 = (if e = Some errErasureWriteQuorum \<and> \<not> noRecreate then undoDeleteBucket env bucket w else w)
      in if e = None \<or> e = Some errVolumeNotFound then
           (let (purgedDangling, w2) = fold (purgeStep env bucket dErrs) [0..<length dErrs] (False, w1)
            in (toObjectErr' env (if purgedDangling then None else e) bucket, w2))
         else (toObjectErr' env e bucket, w1))"

definition DeleteBucket :: "'d env \<Rightarrow> string \<Rightarrow> DeleteBucketOptions \<Rightarrow> 'd world \<Rightarrow> objErr option \<times> 'd world" where
  "DeleteBucket env bucket opts w =
     (let (dErrs, w1) = DeleteBucket_fanout env bucket (Force opts) w;
          (r, w2) = (if Force opts then DeleteBucket_force env bucket dErrs w1
                     else DeleteBucket_quorum env bucket (NoRecreate opts) dErrs w1)
      in (r, NSUpdated bucket slashSeparator w2))"

subsection \<open>Observations on the trace\<close>

text \<open>The \<^verbatim>\<open>RenameFile\<close> calls of a trace (slot, source volume, source path, target volume),
  the buckets \<^verbatim>\<open>undoDeleteBucket\<close> was entered for, the \<^verbatim>\<open>MakeVol\<close> calls, and the slot
  a storage call went to.\<close>

fun renameOf :: "event \<Rightarrow> (nat \<times> string \<times> string \<times> string) list" where
  "renameOf (ERenameFile i b s d u) = [(i, b, s, d)]"
| "renameOf _ = []"

definition renames :: "event list \<Rightarrow> (nat \<times> string \<times> string \<times> string) list" where
  "renames tr = concat (map renameOf tr)"

fun undoOf :: "event \<Rightarrow> string list" where
  "undoOf (EUndoDeleteBucket b) = [b]"
| "undoOf _ = []"

definition undos :: "event list \<Rightarrow> string list" where
  "undos tr = concat (map undoOf tr)"

fun makeVolOf :: "event \<Rightarrow> (nat \<times> string) list" where
  "makeVolOf (EMakeVol i b) = [(i, b)]"
| "makeVolOf _ = []"

definition makeVols :: "event list \<Rightarrow> (nat \<times> string) list" where
  "makeVols tr = concat (map makeVolOf tr)"

fun slotOf :: "event \<Rightarrow> nat list" where
  "slotOf (EMakeVol i b) = [i]"
| "slotOf (EStatVol i b) = [i]"
| "slotOf (EDeleteVol i b f) = [i]"
| "slotOf (ERenameFile i b s d u) = [i]"
| "slotOf _ = []"

definition calledSlots :: "event list \<Rightarrow> nat list" where
  "calledSlots tr = concat (map slotOf tr)"

text \<open>The slots of a handle set that hold a live disk.\<close>

definition liveSlots :: "'d option list \<Rightarrow> nat list" where
  "liveSlots ds = filter (\<lambda>i. ds ! i \<noteq> None) [0..<length ds]"

text \<open>The live slots whose delete reported a volume that is not empty.\<close>

definition notEmptySlots :: "err option list \<Rightarrow> 'd option list \<Rightarrow> nat list" where
  "notEmptySlots dErrs ds =
     filter (\<lambda>i. dErrs ! i = Some errVolumeNotEmpty \<and> ds ! i \<noteq> None) [0..<length ds]"

subsection \<open>One slot of a fan-out\<close>

text \<open>Every task of a fan-out reads and writes the disk of its own slot only. A slot
  function gives, for slot \<open>i\<close> and its handle, the error stored in the group (\<open>None\<close>
  when no task is started for the slot), the new handle and the events recorded;
  \<open>slotStep\<close> is the round of the loop built from it, and \<open>slotErrs\<close>, \<open>slotDisks\<close> and
  \<open>slotEvents\<close> are the error vector, the handles and the events after \<open>k\<close> rounds.\<close>

type_synonym 'd slotFun = "nat \<Rightarrow> 'd option \<Rightarrow> err option option \<times> 'd option \<times> event list"

definition slotStep :: "'d slotFun \<Rightarrow> nat \<Rightarrow> Group \<times> 'd world \<Rightarrow> Group \<times> 'd world" where
  "slotStep slot i gs =
     (case slot i (disks (snd gs) ! i) of
        (eo, d', evs) \<Rightarrow>
          ((case eo of None \<Rightarrow> fst gs | Some e \<Rightarrow> (fst gs)[i := e]),
           (snd gs)\<lparr>disks := (disks (snd gs))[i := d'], trace := trace (snd gs) @ evs\<rparr>))"

definition slotErrs :: "'d slotFun \<Rightarrow> nat \<Rightarrow> Group \<Rightarrow> 'd option list \<Rightarrow> Group" where
  "slotErrs slot k g ds =
     map (\<lambda>i. if i < k then (case fst (slot i (ds ! i)) of None \<Rightarrow> g ! i | Some e \<Rightarrow> e) else g ! i)
       [0..<length g]"

definition slotDisks :: "'d slotFun \<Rightarrow> nat \<Rightarrow> 'd option list \<Rightarrow> 'd option list" where
  "slotDisks slot k ds =
     map (\<lambda>i. if i < k then fst (snd (slot i (ds ! i))) else ds ! i) [0..<length ds]"

definition slotEvents :: "'d slotFun \<Rightarrow> nat \<Rightarrow> 'd option list \<Rightarrow> event list" where
  "slotEvents slot k ds = concat (map (\<lambda>i. snd (snd (slot i (ds ! i)))) [0..<k])"

definition MakeBucket_slot :: "'d env \<Rightarrow> string \<Rightarrow> 'd slotFun" where
  "MakeBucket_slot env bucket i dopt =
     (case dopt of
        None \<Rightarrow> (Some (Some errDiskNotFound), None, [])
      | Some d \<Rightarrow>
          (Some (fst (MakeVol env d bucket)), Some (snd (MakeVol env d bucket)),
           EMakeVol i bucket #
             (case fst (MakeVol env d bucket) of
                None \<Rightarrow> []
              | Some e \<Rightarrow> if e \<noteq> errVolumeExists then [ELogIf e] else [])))"

definition DeleteBucket_slot :: "'d env \<Rightarrow> string \<Rightarrow> bool \<Rightarrow> 'd slotFun" where
  "DeleteBucket_slot env bucket force i dopt =
     (case dopt of
        None \<Rightarrow> (Some (Some errDiskNotFound), None, [])
      | Some d \<Rightarrow>
          (Some (fst (DeleteVol env d bucket force)), Some (snd (DeleteVol env d bucket force)),
           [EDeleteVol i bucket force]))"

definition undoDeleteBucket_slot :: "'d env \<Rightarrow> string \<Rightarrow> 'd slotFun" where
  "undoDeleteBucket_slot env bucket i dopt =
     (case dopt of
        None \<Rightarrow> (None, None, [])
      | Some d \<Rightarrow> (Some None, Some (snd (MakeVol env d bucket)), [EMakeVol i bucket]))"

definition getBucketInfo_slot :: "'d env \<Rightarrow> string \<Rightarrow> 'd slotFun" where
  "getBucketInfo_slot env bucketName i dopt =
     (case dopt of
        None \<Rightarrow> (Some (Some errDiskNotFound), None, [])
      | Some d \<Rightarrow>
          (Some (case fst (StatVol env d bucketName) of Inl e \<Rightarrow> Some e | Inr v \<Rightarrow> None),
           Some (snd (StatVol env d bucketName)), [EStatVol i bucketName]))"

text \<open>The array \<^verbatim>\<open>bucketsInfo\<close> after \<open>k\<close> rounds of the stat fan-out.\<close>

definition slotInfos :: "'d env \<Rightarrow> string \<Rightarrow> nat \<Rightarrow> BucketInfo list \<Rightarrow> 'd option list \<Rightarrow> BucketInfo list" where
  "slotInfos env bucketName k bi ds =
     map (\<lambda>i. if i < k then
                 (case ds ! i of
                    None \<Rightarrow> bi ! i
                  | Some d \<Rightarrow> (case fst (StatVol env d bucketName) of Inl e \<Rightarrow> bi ! i | Inr v \<Rightarrow> v))
               else bi ! i) [0..<length bi]"

subsection \<open>A scripted backend\<close>

text \<open>A disk that answers every call with a fixed reply, a quorum policy of a strict
  majority for writes and of half the disks for reads, and a translation of the storage
  errors: the instance the general theorems are run on.\<close>

record script =
  onMakeVol :: "err option"
  onStatVol :: "err + VolInfo"
  onDeleteVol :: "err option"
  onRenameFile :: "err option"

fun scriptedToObjectErr :: "err \<Rightarrow> string \<Rightarrow> objErr" where
  "scriptedToObjectErr errVolumeNotFound b = BucketNotFound b"
| "scriptedToObjectErr errVolumeNotEmpty b = BucketNotEmpty b"
| "scriptedToObjectErr errVolumeExists b = BucketExists b"
| "scriptedToObjectErr errErasureWriteQuorum b = InsufficientWriteQuorum"
| "scriptedToObjectErr errErasureReadQuorum b = InsufficientReadQuorum"
| "scriptedToObjectErr e b = StorageErr e"

definition scriptedEnv :: "script env" where
  "scriptedEnv =
     \<lparr>MakeVol = (\<lambda>d b. (onMakeVol d, d)),
      StatVol = (\<lambda>d b. (onStatVol d, d)),
      DeleteVol = (\<lambda>d b f. (onDeleteVol d, d)),
      RenameFile = (\<lambda>d b s t u. (onRenameFile d, d)),
      CheckValidBucketNameStrict =
        (\<lambda>b. if length b < 3 then Some ''Bucket name cannot be shorter than 3 characters'' else None),
      getWriteQuorum = (\<lambda>n. n div 2 + 1),
      getReadQuorum = (\<lambda>n. n div 2),
      toObjectErr = scriptedToObjectErr,
      mustGetUUID = (\<lambda>n. replicate (Suc n) CHR ''u'')\<rparr>"

text \<open>A disk whose \<^verbatim>\<open>DeleteVol\<close> answers \<open>e\<close> and whose \<^verbatim>\<open>RenameFile\<close> fails.\<close>

definition deleting :: "err option \<Rightarrow> script option" where
  "deleting e =
     Some \<lparr>onMakeVol = Some errVolumeExists, onStatVol = Inl errVolumeNotFound, onDeleteVol = e,
           onRenameFile = Some errFaultyDisk\<rparr>"

text \<open>A disk whose \<^verbatim>\<open>StatVol\<close> answers \<open>r\<close>, and one whose \<^verbatim>\<open>MakeVol\<close> answers \<open>e\<close>.\<close>

definition statting :: "err + VolInfo \<Rightarrow> script option" where
  "statting r =
     Some \<lparr>onMakeVol = None, onStatVol = r, onDeleteVol = None, onRenameFile = None\<rparr>"

definition making :: "err option \<Rightarrow> script option" where
  "making e =
     Some \<lparr>onMakeVol = e, onStatVol = Inl errVolumeNotFound, onDeleteVol = None, onRenameFile = None\<rparr>"

definition freshWorld :: "'d option list \<Rightarrow> 'd world" where
  "freshWorld ds = \<lparr>disks = ds, trace = [], uuidCount = 0\<rparr>"

text \<open>The delete options without force, and the world of fresh scripted disks whose
  \<^verbatim>\<open>DeleteVol\<close> answers are the given ones.\<close>

definition quorumOpts :: DeleteBucketOptions where
  "quorumOpts = \<lparr>Force = False, NoRecreate = False\<rparr>"

definition forceOpts :: DeleteBucketOptions where
  "forceOpts = \<lparr>Force = True, NoRecreate = False\<rparr>"

definition deleteWorld :: "err option list \<Rightarrow> script world" where
  "deleteWorld es = freshWorld (map deleting es)"

section \<open>The loops in closed form\<close>

lemma map_upt_update:
  "k < n \<Longrightarrow> (map f [0..<n])[k := v] = map (\<lambda>i. if i = k then v else f i) [0..<n]"
  by (rule nth_equalityI) (auto simp: nth_list_update)

lemma slotStep_closed:
  assumes k: "k < length (disks w)" and len: "length g = length (disks w)"
  shows "slotStep slot k (slotErrs slot k g (disks w),
           w\<lparr>disks := slotDisks slot k (disks w), trace := trace w @ slotEvents slot k (disks w)\<rparr>)
         = (slotErrs slot (Suc k) g (disks w),
           w\<lparr>disks := slotDisks slot (Suc k) (disks w),
             trace := trace w @ slotEvents slot (Suc k) (disks w)\<rparr>)"
proof -
  have nth: "slotDisks slot k (disks w) ! k = disks w ! k"
    using k by (simp add: slotDisks_def)
  obtain eo d' evs where s: "slot k (disks w ! k) = (eo, d', evs)"
    by (cases "slot k (disks w ! k)")
  have e: "(case eo of None \<Rightarrow> slotErrs slot k g (disks w) | Some e \<Rightarrow> (slotErrs slot k g (disks w))[k := e])
           = slotErrs slot (Suc k) g (disks w)"
    using k len s
    by (cases eo) (auto simp: slotErrs_def map_upt_update less_Suc_eq intro!: nth_equalityI)
  have d: "(slotDisks slot k (disks w))[k := d'] = slotDisks slot (Suc k) (disks w)"
    using k s by (auto simp: slotDisks_def map_upt_update less_Suc_eq intro!: nth_equalityI)
  have t: "slotEvents slot k (disks w) @ evs = slotEvents slot (Suc k) (disks w)"
    using s by (simp add: slotEvents_def)
  show ?thesis
    using e by (cases eo) (simp_all add: slotStep_def nth s d t[symmetric])
qed

lemma slot_0:
  "slotErrs slot 0 g ds = g" "slotDisks slot 0 ds = ds" "slotEvents slot 0 ds = []"
proof -
  have "map ((!) g) [0..<length g] = g" "map ((!) ds) [0..<length ds] = ds"
    by (rule map_nth)+
  then show "slotErrs slot 0 g ds = g" "slotDisks slot 0 ds = ds" "slotEvents slot 0 ds = []"
    by (simp_all add: slotErrs_def slotDisks_def slotEvents_def)
qed

lemma fold_slotStep:
  "k \<le> length (disks w) \<Longrightarrow> length g = length (disks w) \<Longrightarrow>
   fold (slotStep slot) [0..<k] (g, w) =
     (slotErrs slot k g (disks w),
      w\<lparr>disks := slotDisks slot k (disks w), trace := trace w @ slotEvents slot k (disks w)\<rparr>)"
proof (induction k)
  case 0
  then show ?case
    by (simp add: slot_0)
next
  case (Suc k)
  then have k: "k < length (disks w)" and IH: "fold (slotStep slot) [0..<k] (g, w) =
     (slotErrs slot k g (disks w),
      w\<lparr>disks := slotDisks slot k (disks w), trace := trace w @ slotEvents slot k (disks w)\<rparr>)"
    by simp_all
  have "fold (slotStep slot) [0..<Suc k] (g, w) = slotStep slot k (fold (slotStep slot) [0..<k] (g, w))"
    by simp
  also have "\<dots> = slotStep slot k (slotErrs slot k g (disks w),
      w\<lparr>disks := slotDisks slot k (disks w), trace := trace w @ slotEvents slot k (disks w)\<rparr>)"
    by (simp only: IH)
  also have "\<dots> = (slotErrs slot (Suc k) g (disks w),
      w\<lparr>disks := slotDisks slot (Suc k) (disks w), trace := trace w @ slotEvents slot (Suc k) (disks w)\<rparr>)"
    using k Suc.prems(2) by (rule slotStep_closed)
  finally show ?case .
qed

lemma update_same: "xs ! i = v \<Longrightarrow> xs[i := v] = xs"
  by (metis list_update_id)

lemma MakeBucket_step:
  "Go (MakeBucket_task env bucket i) i gs = slotStep (MakeBucket_slot env bucket) i gs"
  by (cases "disks (snd gs) ! i"; cases "MakeVol env (the (disks (snd gs) ! i)) bucket";
      cases "fst (MakeVol env (the (disks (snd gs) ! i)) bucket)")
     (simp_all add: Go_def MakeBucket_task_def slotStep_def MakeBucket_slot_def called_def logIf_def
        update_same)

lemma DeleteBucket_step:
  "Go (DeleteBucket_task env bucket force i) i gs = slotStep (DeleteBucket_slot env bucket force) i gs"
  by (cases "disks (snd gs) ! i"; cases "DeleteVol env (the (disks (snd gs) ! i)) bucket force")
     (simp_all add: Go_def DeleteBucket_task_def slotStep_def DeleteBucket_slot_def called_def
        update_same)

lemma undoDeleteBucket_step:
  "(if disks (snd gs) ! i = None then gs else Go (undoDeleteBucket_task env bucket i) i gs)
     = slotStep (undoDeleteBucket_slot env bucket) i gs"
  by (cases "disks (snd gs) ! i"; cases "MakeVol env (the (disks (snd gs) ! i)) bucket")
     (simp_all add: Go_def undoDeleteBucket_task_def slotStep_def undoDeleteBucket_slot_def called_def
        update_same)

lemma MakeBucket_fanout_eq:
  "MakeBucket_fanout env bucket w =
     (slotErrs (MakeBucket_slot env bucket) (length (disks w)) (replicate (length (disks w)) None) (disks w),
      w\<lparr>disks := slotDisks (MakeBucket_slot env bucket) (length (disks w)) (disks w),
        trace := trace w @ slotEvents (MakeBucket_slot env bucket) (length (disks w)) (disks w)\<rparr>)"
proof -
  have "(\<lambda>index. Go (MakeBucket_task env bucket index) index) = slotStep (MakeBucket_slot env bucket)"
    by (intro ext) (rule MakeBucket_step)
  then show ?thesis
    by (simp add: MakeBucket_fanout_def WithNErrs_def Wait_def fold_slotStep Let_def)
qed

lemma DeleteBucket_fanout_eq:
  "DeleteBucket_fanout env bucket force w =
     (slotErrs (DeleteBucket_slot env bucket force) (length (disks w)) (replicate (length (disks w)) None) (disks w),
      w\<lparr>disks := slotDisks (DeleteBucket_slot env bucket force) (length (disks w)) (disks w),
        trace := trace w @ slotEvents (DeleteBucket_slot env bucket force) (length (disks w)) (disks w)\<rparr>)"
proof -
  have "(\<lambda>index. Go (DeleteBucket_task env bucket force index) index) = slotStep (DeleteBucket_slot env bucket force)"
    by (intro ext) (rule DeleteBucket_step)
  then show ?thesis
    by (simp add: DeleteBucket_fanout_def WithNErrs_def Wait_def fold_slotStep Let_def)
qed

lemma undoDeleteBucket_group_eq:
  "undoDeleteBucket_group env bucket w =
     (slotErrs (undoDeleteBucket_slot env bucket) (length (disks w)) (replicate (length (disks w)) None) (disks w),
      w\<lparr>disks := slotDisks (undoDeleteBucket_slot env bucket) (length (disks w)) (disks w),
        trace := trace w @ EUndoDeleteBucket bucket #
                   slotEvents (undoDeleteBucket_slot env bucket) (length (disks w)) (disks w)\<rparr>)"
proof -
  have "(\<lambda>index gs. if disks (snd gs) ! index = None then gs
                     else Go (undoDeleteBucket_task env bucket index) index gs)
          = slotStep (undoDeleteBucket_slot env bucket)"
    by (intro ext) (rule undoDeleteBucket_step)
  then show ?thesis
    by (simp add: undoDeleteBucket_group_def WithNErrs_def Wait_def fold_slotStep Let_def)
qed


lemma renames_append [simp]: "renames (a @ b) = renames a @ renames b"
  by (simp add: renames_def)

lemma undos_append [simp]: "undos (a @ b) = undos a @ undos b"
  by (simp add: undos_def)

lemma makeVols_append [simp]: "makeVols (a @ b) = makeVols a @ makeVols b"
  by (simp add: makeVols_def)

lemma calledSlots_append [simp]: "calledSlots (a @ b) = calledSlots a @ calledSlots b"
  by (simp add: calledSlots_def)

lemma concat_map_filter:
  "concat (map (\<lambda>i. if P i then [f i] else []) xs) = map f (filter P xs)"
  by (induction xs) auto

lemma slotEvents_Suc:
  "slotEvents slot (Suc k) ds = slotEvents slot k ds @ snd (snd (slot k (ds ! k)))"
  by (simp add: slotEvents_def)

lemma calledSlots_slotEvents:
  "calledSlots (slotEvents slot k ds) = concat (map (\<lambda>i. calledSlots (snd (snd (slot i (ds ! i))))) [0..<k])"
  by (induction k) (simp_all add: slotEvents_Suc, simp add: slotEvents_def calledSlots_def)

lemma length_slotErrs [simp]: "length (slotErrs slot k g ds) = length g"
  by (simp add: slotErrs_def)

lemma length_slotDisks [simp]: "length (slotDisks slot k ds) = length ds"
  by (simp add: slotDisks_def)

lemma nth_slotErrs:
  "i < length g \<Longrightarrow> slotErrs slot k g ds ! i =
     (if i < k then (case fst (slot i (ds ! i)) of None \<Rightarrow> g ! i | Some e \<Rightarrow> e) else g ! i)"
  by (simp add: slotErrs_def split: option.split)

lemma nth_slotDisks:
  "i < length ds \<Longrightarrow> slotDisks slot k ds ! i = (if i < k then fst (snd (slot i (ds ! i))) else ds ! i)"
  by (simp add: slotDisks_def)

text \<open>The delete fan-out.\<close>

lemma length_DeleteBucket_fanout:
  "length (fst (DeleteBucket_fanout env bucket force w)) = length (disks w)"
  "length (disks (snd (DeleteBucket_fanout env bucket force w))) = length (disks w)"
  by (simp_all add: DeleteBucket_fanout_eq)

lemma nth_DeleteBucket_fanout:
  assumes "i < length (disks w)"
  shows "fst (DeleteBucket_fanout env bucket force w) ! i =
           (case disks w ! i of None \<Rightarrow> Some errDiskNotFound | Some d \<Rightarrow> fst (DeleteVol env d bucket force))"
    and "disks (snd (DeleteBucket_fanout env bucket force w)) ! i =
           (case disks w ! i of None \<Rightarrow> None | Some d \<Rightarrow> Some (snd (DeleteVol env d bucket force)))"
  using assms
  by (simp_all add: DeleteBucket_fanout_eq nth_slotErrs nth_slotDisks DeleteBucket_slot_def
        split: option.split)

lemma DeleteBucket_events:
  "slotEvents (DeleteBucket_slot env bucket force) (length ds) ds
     = map (\<lambda>i. EDeleteVol i bucket force) (liveSlots ds)"
proof -
  have "(\<lambda>i. snd (snd (DeleteBucket_slot env bucket force i (ds ! i))))
          = (\<lambda>i. if ds ! i \<noteq> None then [EDeleteVol i bucket force] else [])"
    by (auto simp: DeleteBucket_slot_def split: option.split)
  then show ?thesis
    by (simp add: slotEvents_def liveSlots_def concat_map_filter)
qed

lemma map_obs_DeleteVol:
  "renames (map (\<lambda>i. EDeleteVol i b f) xs) = []"
  "undos (map (\<lambda>i. EDeleteVol i b f) xs) = []"
  "makeVols (map (\<lambda>i. EDeleteVol i b f) xs) = []"
  "calledSlots (map (\<lambda>i. EDeleteVol i b f) xs) = xs"
  by (induction xs) (simp_all add: renames_def undos_def makeVols_def calledSlots_def)

lemma trace_DeleteBucket_fanout:
  "renames (trace (snd (DeleteBucket_fanout env bucket force w))) = renames (trace w)"
  "undos (trace (snd (DeleteBucket_fanout env bucket force w))) = undos (trace w)"
  "makeVols (trace (snd (DeleteBucket_fanout env bucket force w))) = makeVols (trace w)"
  "uuidCount (snd (DeleteBucket_fanout env bucket force w)) = uuidCount w"
  by (simp_all add: DeleteBucket_fanout_eq DeleteBucket_events map_obs_DeleteVol)

lemma notEmptySlots_cong:
  assumes "length ds' = length ds" "\<And>i. i < length ds \<Longrightarrow> (ds' ! i = None) = (ds ! i = None)"
  shows "notEmptySlots dErrs ds' = notEmptySlots dErrs ds"
  unfolding notEmptySlots_def assms(1)
  by (rule filter_cong) (simp_all add: assms(2) del: not_None_eq)

lemma liveSlots_cong:
  assumes "length ds' = length ds" "\<And>i. i < length ds \<Longrightarrow> (ds' ! i = None) = (ds ! i = None)"
  shows "liveSlots ds' = liveSlots ds"
  unfolding liveSlots_def assms(1)
  by (rule filter_cong) (simp_all add: assms(2) del: not_None_eq)

lemma notEmptySlots_DeleteBucket_fanout:
  "notEmptySlots dErrs (disks (snd (DeleteBucket_fanout env bucket force w))) = notEmptySlots dErrs (disks w)"
  by (rule notEmptySlots_cong)
     (simp_all add: length_DeleteBucket_fanout nth_DeleteBucket_fanout split: option.split)

lemma liveSlots_DeleteBucket_fanout:
  "liveSlots (disks (snd (DeleteBucket_fanout env bucket force w))) = liveSlots (disks w)"
  by (rule liveSlots_cong)
     (simp_all add: length_DeleteBucket_fanout nth_DeleteBucket_fanout split: option.split)

text \<open>The rollback.\<close>

lemma undoDeleteBucket_eq:
  "undoDeleteBucket env bucket w =
     w\<lparr>disks := slotDisks (undoDeleteBucket_slot env bucket) (length (disks w)) (disks w),
       trace := trace w @ EUndoDeleteBucket bucket #
                  slotEvents (undoDeleteBucket_slot env bucket) (length (disks w)) (disks w)\<rparr>"
  by (simp add: undoDeleteBucket_def undoDeleteBucket_group_eq)

lemma undoDeleteBucket_events:
  "slotEvents (undoDeleteBucket_slot env bucket) (length ds) ds = map (\<lambda>i. EMakeVol i bucket) (liveSlots ds)"
proof -
  have "(\<lambda>i. snd (snd (undoDeleteBucket_slot env bucket i (ds ! i))))
          = (\<lambda>i. if ds ! i \<noteq> None then [EMakeVol i bucket] else [])"
    by (auto simp: undoDeleteBucket_slot_def split: option.split)
  then show ?thesis
    by (simp add: slotEvents_def liveSlots_def concat_map_filter)
qed

lemma map_obs:
  "renames (map (\<lambda>i. EMakeVol i b) xs) = []"
  "undos (map (\<lambda>i. EMakeVol i b) xs) = []"
  "makeVols (map (\<lambda>i. EMakeVol i b) xs) = map (\<lambda>i. (i, b)) xs"
  "calledSlots (map (\<lambda>i. EMakeVol i b) xs) = xs"
  by (induction xs) (simp_all add: renames_def undos_def makeVols_def calledSlots_def)

lemma obs_Cons:
  "renames (e # tr) = renameOf e @ renames tr"
  "undos (e # tr) = undoOf e @ undos tr"
  "makeVols (e # tr) = makeVolOf e @ makeVols tr"
  "calledSlots (e # tr) = slotOf e @ calledSlots tr"
  by (simp_all add: renames_def undos_def makeVols_def calledSlots_def)

lemma obs_Nil [simp]:
  "renames [] = []" "undos [] = []" "makeVols [] = []" "calledSlots [] = []"
  by (simp_all add: renames_def undos_def makeVols_def calledSlots_def)

lemma trace_undoDeleteBucket:
  "renames (trace (undoDeleteBucket env bucket w)) = renames (trace w)"
  "undos (trace (undoDeleteBucket env bucket w)) = undos (trace w) @ [bucket]"
  "makeVols (trace (undoDeleteBucket env bucket w)) =
     makeVols (trace w) @ map (\<lambda>i. (i, bucket)) (liveSlots (disks w))"
  "uuidCount (undoDeleteBucket env bucket w) = uuidCount w"
  by (simp_all add: undoDeleteBucket_eq undoDeleteBucket_events map_obs obs_Cons)

text \<open>The purge loop.\<close>

lemma purgeStep_cases:
  "purgeStep env bucket dErrs i (p, w) =
     (if dErrs ! i = Some errVolumeNotEmpty \<and> disks w ! i \<noteq> None
      then (True,
            w\<lparr>disks := (disks w)[i := Some (snd (RenameFile env (the (disks w ! i)) bucket []
                                             minioMetaTmpDeletedBucket (mustGetUUID env (uuidCount w))))],
              trace := trace w @ [ERenameFile i bucket [] minioMetaTmpDeletedBucket
                                    (mustGetUUID env (uuidCount w))],
              uuidCount := Suc (uuidCount w)\<rparr>)
      else (p, w))"
  by (cases "disks w ! i")
     (simp_all add: purgeStep_def called_def Let_def split: prod.split)

lemma fold_purgeStep:
  assumes "k \<le> length (disks w)"
    and "fold (purgeStep env bucket dErrs) [0..<k] (p, w) = (p', w')"
  shows "p' = (p \<or> (\<exists>i<k. dErrs ! i = Some errVolumeNotEmpty \<and> disks w ! i \<noteq> None))
       \<and> renames (trace w') = renames (trace w) @
            map (\<lambda>i. (i, bucket, [], minioMetaTmpDeletedBucket))
              (filter (\<lambda>i. dErrs ! i = Some errVolumeNotEmpty \<and> disks w ! i \<noteq> None) [0..<k])
       \<and> undos (trace w') = undos (trace w)
       \<and> makeVols (trace w') = makeVols (trace w)
       \<and> length (disks w') = length (disks w)
       \<and> (\<forall>i<length (disks w). (disks w' ! i = None) = (disks w ! i = None))"
  using assms
proof (induction k arbitrary: p' w')
  case 0
  then show ?case by simp
next
  case (Suc k)
  obtain pk wk where f: "fold (purgeStep env bucket dErrs) [0..<k] (p, w) = (pk, wk)"
    by (cases "fold (purgeStep env bucket dErrs) [0..<k] (p, w)")
  from Suc.prems have k: "k < length (disks w)" by simp
  from Suc.IH [OF _ f] k have IH:
    "pk = (p \<or> (\<exists>i<k. dErrs ! i = Some errVolumeNotEmpty \<and> disks w ! i \<noteq> None))"
    "renames (trace wk) = renames (trace w) @
            map (\<lambda>i. (i, bucket, [], minioMetaTmpDeletedBucket))
              (filter (\<lambda>i. dErrs ! i = Some errVolumeNotEmpty \<and> disks w ! i \<noteq> None) [0..<k])"
    "undos (trace wk) = undos (trace w)"
    "makeVols (trace wk) = makeVols (trace w)"
    "length (disks wk) = length (disks w)"
    "\<forall>i<length (disks w). (disks wk ! i = None) = (disks w ! i = None)"
    by simp_all
  have live: "(disks wk ! k = None) = (disks w ! k = None)"
    using IH(6) k by simp
  have step: "(p', w') = purgeStep env bucket dErrs k (pk, wk)"
    using Suc.prems(2) by (simp add: f)
  show ?case
    using step IH live k unfolding purgeStep_cases
    by (auto simp: less_Suc_eq obs_Cons nth_list_update split: if_splits)
qed

text \<open>The quorum branch of DeleteBucket.\<close>

lemma DeleteBucket_quorum_eq:
  fixes env :: "'d env" and w :: "'d world"
  assumes len: "length dErrs = length (disks w)"
  defines "e \<equiv> reduceWriteQuorumErrs dErrs bucketOpIgnoredErrs (getWriteQuorum env (length (disks w)))"
  shows "fst (DeleteBucket_quorum env bucket nr dErrs w) =
           toObjectErr' env (if (e = None \<or> e = Some errVolumeNotFound) \<and> notEmptySlots dErrs (disks w) \<noteq> []
                             then None else e) bucket"
    and "renames (trace (snd (DeleteBucket_quorum env bucket nr dErrs w))) =
           renames (trace w) @
             (if e = None \<or> e = Some errVolumeNotFound
              then map (\<lambda>i. (i, bucket, [], minioMetaTmpDeletedBucket)) (notEmptySlots dErrs (disks w))
              else [])"
    and "undos (trace (snd (DeleteBucket_quorum env bucket nr dErrs w))) =
           undos (trace w) @ (if e = Some errErasureWriteQuorum \<and> \<not> nr then [bucket] else [])"
    and "makeVols (trace (snd (DeleteBucket_quorum env bucket nr dErrs w))) =
           makeVols (trace w) @
             (if e = Some errErasureWriteQuorum \<and> \<not> nr
              then map (\<lambda>i. (i, bucket)) (liveSlots (disks w)) else [])"
proof -
  obtain p' w' where f: "fold (purgeStep env bucket dErrs) [0..<length dErrs] (False, w) = (p', w')"
    by (cases "fold (purgeStep env bucket dErrs) [0..<length dErrs] (False, w)")
  note P = fold_purgeStep [OF _ f, unfolded len, simplified]
  have ne: "(\<exists>i<length (disks w). dErrs ! i = Some errVolumeNotEmpty \<and> disks w ! i \<noteq> None)
              = (notEmptySlots dErrs (disks w) \<noteq> [])"
    by (auto simp: notEmptySlots_def filter_empty_conv simp del: not_None_eq)
  have q: "DeleteBucket_quorum env bucket nr dErrs w =
             (if e = None \<or> e = Some errVolumeNotFound
              then (toObjectErr' env (if p' then None else e) bucket, w')
              else (toObjectErr' env e bucket,
                    if e = Some errErasureWriteQuorum \<and> \<not> nr then undoDeleteBucket env bucket w else w))"
    using f by (auto simp: DeleteBucket_quorum_def Let_def e_def)
  show "fst (DeleteBucket_quorum env bucket nr dErrs w) =
           toObjectErr' env (if (e = None \<or> e = Some errVolumeNotFound) \<and> notEmptySlots dErrs (disks w) \<noteq> []
                             then None else e) bucket"
    unfolding q using P ne by auto
  show "renames (trace (snd (DeleteBucket_quorum env bucket nr dErrs w))) =
           renames (trace w) @
             (if e = None \<or> e = Some errVolumeNotFound
              then map (\<lambda>i. (i, bucket, [], minioMetaTmpDeletedBucket)) (notEmptySlots dErrs (disks w))
              else [])"
    unfolding q using P by (auto simp: notEmptySlots_def trace_undoDeleteBucket)
  show "undos (trace (snd (DeleteBucket_quorum env bucket nr dErrs w))) =
           undos (trace w) @ (if e = Some errErasureWriteQuorum \<and> \<not> nr then [bucket] else [])"
    unfolding q using P by (auto simp: trace_undoDeleteBucket)
  show "makeVols (trace (snd (DeleteBucket_quorum env bucket nr dErrs w))) =
           makeVols (trace w) @
             (if e = Some errErasureWriteQuorum \<and> \<not> nr
              then map (\<lambda>i. (i, bucket)) (liveSlots (disks w)) else [])"
    unfolding q using P by (auto simp: trace_undoDeleteBucket)
qed

text \<open>The stat fan-out.\<close>

lemma getBucketInfo_step:
  "Go (getBucketInfo_task env b i) i (g, bi, w) =
     (fst (slotStep (getBucketInfo_slot env b) i (g, w)),
      (case disks w ! i of
         None \<Rightarrow> bi
       | Some d \<Rightarrow> (case fst (StatVol env d b) of Inl e \<Rightarrow> bi | Inr v \<Rightarrow> bi[i := v])),
      snd (slotStep (getBucketInfo_slot env b) i (g, w)))"
  by (cases "disks w ! i"; cases "StatVol env (the (disks w ! i)) b";
      cases "fst (StatVol env (the (disks w ! i)) b)")
     (simp_all add: Go_def getBucketInfo_task_def slotStep_def getBucketInfo_slot_def called_def
        update_same)

lemma slotInfos_0: "slotInfos env b 0 bi ds = bi"
proof -
  have "map ((!) bi) [0..<length bi] = bi" by (rule map_nth)
  then show ?thesis by (simp add: slotInfos_def)
qed

lemma slotInfos_Suc:
  assumes "k < length ds" "length bi = length ds"
  shows "(case ds ! k of
            None \<Rightarrow> slotInfos env b k bi ds
          | Some d \<Rightarrow> (case fst (StatVol env d b) of
                         Inl e \<Rightarrow> slotInfos env b k bi ds
                       | Inr v \<Rightarrow> (slotInfos env b k bi ds)[k := v]))
         = slotInfos env b (Suc k) bi ds"
  using assms
  by (auto simp: slotInfos_def map_upt_update less_Suc_eq split: option.split sum.split
        intro!: nth_equalityI)

lemma fold_getBucketInfo:
  "k \<le> length (disks w) \<Longrightarrow> length g = length (disks w) \<Longrightarrow> length bi = length (disks w) \<Longrightarrow>
   fold (\<lambda>index. Go (getBucketInfo_task env b index) index) [0..<k] (g, bi, w) =
     (slotErrs (getBucketInfo_slot env b) k g (disks w),
      slotInfos env b k bi (disks w),
      w\<lparr>disks := slotDisks (getBucketInfo_slot env b) k (disks w),
        trace := trace w @ slotEvents (getBucketInfo_slot env b) k (disks w)\<rparr>)"
proof (induction k)
  case 0
  then show ?case
    by (simp add: slot_0 slotInfos_0)
next
  case (Suc k)
  then have k: "k < length (disks w)"
    and IH: "fold (\<lambda>index. Go (getBucketInfo_task env b index) index) [0..<k] (g, bi, w) =
     (slotErrs (getBucketInfo_slot env b) k g (disks w),
      slotInfos env b k bi (disks w),
      w\<lparr>disks := slotDisks (getBucketInfo_slot env b) k (disks w),
        trace := trace w @ slotEvents (getBucketInfo_slot env b) k (disks w)\<rparr>)"
    by simp_all
  have nth: "slotDisks (getBucketInfo_slot env b) k (disks w) ! k = disks w ! k"
    using k by (simp add: slotDisks_def)
  have "fold (\<lambda>index. Go (getBucketInfo_task env b index) index) [0..<Suc k] (g, bi, w)
          = Go (getBucketInfo_task env b k) k
              (fold (\<lambda>index. Go (getBucketInfo_task env b index) index) [0..<k] (g, bi, w))"
    by simp
  also have "\<dots> = (slotErrs (getBucketInfo_slot env b) (Suc k) g (disks w),
      slotInfos env b (Suc k) bi (disks w),
      w\<lparr>disks := slotDisks (getBucketInfo_slot env b) (Suc k) (disks w),
        trace := trace w @ slotEvents (getBucketInfo_slot env b) (Suc k) (disks w)\<rparr>)"
    unfolding IH getBucketInfo_step
    using slotInfos_Suc [OF k Suc.prems(3), of env b]
    by (simp add: slotStep_closed [OF k Suc.prems(2)] nth)
  finally show ?case .
qed

lemma getBucketInfo_fanout_eq:
  "getBucketInfo_fanout env b w =
     (slotErrs (getBucketInfo_slot env b) (length (disks w)) (replicate (length (disks w)) None) (disks w),
      slotInfos env b (length (disks w)) (replicate (length (disks w)) zeroBucketInfo) (disks w),
      w\<lparr>disks := slotDisks (getBucketInfo_slot env b) (length (disks w)) (disks w),
        trace := trace w @ slotEvents (getBucketInfo_slot env b) (length (disks w)) (disks w)\<rparr>)"
  by (simp add: getBucketInfo_fanout_def WithNErrs_def Wait_def fold_getBucketInfo Let_def)

lemma firstSuccess_index:
  assumes "i < length es" "es ! i = None" "\<forall>j<i. es ! j \<noteq> None"
  shows "firstSuccess n es = Some (n + i)"
  using assms
proof (induction es arbitrary: n i)
  case Nil then show ?case by simp
next
  case (Cons e es)
  show ?case
  proof (cases i)
    case 0 with Cons.prems show ?thesis by simp
  next
    case (Suc i')
    with Cons.prems have "e \<noteq> None" by (metis nth_Cons_0 zero_less_Suc)
    moreover have "firstSuccess (Suc n) es = Some (Suc n + i')"
      using Cons.prems Suc by (intro Cons.IH) auto
    ultimately show ?thesis using Suc by simp
  qed
qed

text \<open>DeleteBucket without force.\<close>

lemma trace_NSUpdated [simp]:
  "renames (trace (NSUpdated b p w)) = renames (trace w)"
  "undos (trace (NSUpdated b p w)) = undos (trace w)"
  "makeVols (trace (NSUpdated b p w)) = makeVols (trace w)"
  "calledSlots (trace (NSUpdated b p w)) = calledSlots (trace w)"
  "disks (NSUpdated b p w) = disks w"
  by (simp_all add: NSUpdated_def obs_Cons)

lemma DeleteBucket_quorum_mode:
  fixes env :: "'d env" and w :: "'d world" and bucket :: string and opts :: DeleteBucketOptions
  assumes "\<not> Force opts"
  defines "dErrs \<equiv> fst (DeleteBucket_fanout env bucket (Force opts) w)"
  defines "e \<equiv> reduceWriteQuorumErrs dErrs bucketOpIgnoredErrs (getWriteQuorum env (length (disks w)))"
  shows "fst (DeleteBucket env bucket opts w) =
           toObjectErr' env (if (e = None \<or> e = Some errVolumeNotFound) \<and> notEmptySlots dErrs (disks w) \<noteq> []
                             then None else e) bucket"
    and "renames (trace (snd (DeleteBucket env bucket opts w))) =
           renames (trace w) @
             (if e = None \<or> e = Some errVolumeNotFound
              then map (\<lambda>i. (i, bucket, [], minioMetaTmpDeletedBucket)) (notEmptySlots dErrs (disks w))
              else [])"
    and "undos (trace (snd (DeleteBucket env bucket opts w))) =
           undos (trace w) @ (if e = Some errErasureWriteQuorum \<and> \<not> NoRecreate opts then [bucket] else [])"
    and "makeVols (trace (snd (DeleteBucket env bucket opts w))) =
           makeVols (trace w) @
             (if e = Some errErasureWriteQuorum \<and> \<not> NoRecreate opts
              then map (\<lambda>i. (i, bucket)) (liveSlots (disks w)) else [])"
proof -
  define w1 where "w1 = snd (DeleteBucket_fanout env bucket (Force opts) w)"
  have len: "length dErrs = length (disks w1)" and lw: "length (disks w1) = length (disks w)"
    by (simp_all add: dErrs_def w1_def length_DeleteBucket_fanout)
  have D: "DeleteBucket env bucket opts w =
             (fst (DeleteBucket_quorum env bucket (NoRecreate opts) dErrs w1),
              NSUpdated bucket slashSeparator (snd (DeleteBucket_quorum env bucket (NoRecreate opts) dErrs w1)))"
    using assms(1) by (simp add: DeleteBucket_def dErrs_def w1_def split: prod.split)
  have ne: "notEmptySlots dErrs (disks w1) = notEmptySlots dErrs (disks w)"
    and lv: "liveSlots (disks w1) = liveSlots (disks w)"
    and tr: "renames (trace w1) = renames (trace w)" "undos (trace w1) = undos (trace w)"
            "makeVols (trace w1) = makeVols (trace w)"
    by (simp_all add: w1_def notEmptySlots_DeleteBucket_fanout liveSlots_DeleteBucket_fanout
          trace_DeleteBucket_fanout)
  note Q = DeleteBucket_quorum_eq [OF len, of env bucket "NoRecreate opts", unfolded lw ne lv tr,
             folded e_def]
  show "fst (DeleteBucket env bucket opts w) =
           toObjectErr' env (if (e = None \<or> e = Some errVolumeNotFound) \<and> notEmptySlots dErrs (disks w) \<noteq> []
                             then None else e) bucket"
    unfolding D by (simp only: fst_conv Q(1))
  show "renames (trace (snd (DeleteBucket env bucket opts w))) =
           renames (trace w) @
             (if e = None \<or> e = Some errVolumeNotFound
              then map (\<lambda>i. (i, bucket, [], minioMetaTmpDeletedBucket)) (notEmptySlots dErrs (disks w))
              else [])"
    unfolding D by (simp only: snd_conv trace_NSUpdated Q(2))
  show "undos (trace (snd (DeleteBucket env bucket opts w))) =
           undos (trace w) @ (if e = Some errErasureWriteQuorum \<and> \<not> NoRecreate opts then [bucket] else [])"
    unfolding D by (simp only: snd_conv trace_NSUpdated Q(3))
  show "makeVols (trace (snd (DeleteBucket env bucket opts w))) =
           makeVols (trace w) @
             (if e = Some errErasureWriteQuorum \<and> \<not> NoRecreate opts
              then map (\<lambda>i. (i, bucket)) (liveSlots (disks w)) else [])"
    unfolding D by (simp only: snd_conv trace_NSUpdated Q(4))
qed


text \<open>DeleteBucket with force.\<close>

lemma DeleteBucket_force_find:
  "DeleteBucket_force env bucket es w =
     (case find (\<lambda>e. e \<noteq> None) es of
        None \<Rightarrow> (None, w)
      | Some e \<Rightarrow> (toObjectErr' env e bucket, undoDeleteBucket env bucket w))"
  by (induction es) simp_all

lemma DeleteBucket_force_unfold:
  fixes env :: "'d env" and w :: "'d world" and bucket :: string and opts :: DeleteBucketOptions
  assumes "Force opts"
  defines "dErrs \<equiv> fst (DeleteBucket_fanout env bucket (Force opts) w)"
  defines "w1 \<equiv> snd (DeleteBucket_fanout env bucket (Force opts) w)"
  shows "DeleteBucket env bucket opts w =
     (case find (\<lambda>e. e \<noteq> None) dErrs of
        None \<Rightarrow> (None, NSUpdated bucket slashSeparator w1)
      | Some e \<Rightarrow> (toObjectErr' env e bucket, NSUpdated bucket slashSeparator (undoDeleteBucket env bucket w1)))"
  using assms(1)
  by (simp add: DeleteBucket_def DeleteBucket_force_find dErrs_def w1_def split: prod.split option.split)

text \<open>The rollback and the slots a fan-out calls.\<close>

lemma undoDeleteBucket_errs:
  "slotErrs (undoDeleteBucket_slot env bucket) k (replicate n None) ds = replicate n None"
  by (rule nth_equalityI) (simp_all add: nth_slotErrs undoDeleteBucket_slot_def split: option.split)

lemma undoDeleteBucket_disks:
  "slotDisks (undoDeleteBucket_slot env bucket) (length ds) ds
     = map (map_option (\<lambda>d. snd (MakeVol env d bucket))) ds"
  by (rule nth_equalityI) (simp_all add: nth_slotDisks undoDeleteBucket_slot_def split: option.split)

lemma concat_map_filter_id:
  "concat (map (\<lambda>i. if P i then [i] else []) xs) = filter P xs"
  by (induction xs) auto

lemma called_events:
  "calledSlots (slotEvents (MakeBucket_slot env bucket) (length ds) ds) = liveSlots ds"
  "calledSlots (slotEvents (DeleteBucket_slot env bucket force) (length ds) ds) = liveSlots ds"
  "calledSlots (slotEvents (getBucketInfo_slot env bucket) (length ds) ds) = liveSlots ds"
proof -
  have "(\<lambda>i. calledSlots (snd (snd (MakeBucket_slot env bucket i (ds ! i)))))
          = (\<lambda>i. if ds ! i \<noteq> None then [i] else [])"
    by (auto simp: MakeBucket_slot_def obs_Cons split: option.split)
  then show "calledSlots (slotEvents (MakeBucket_slot env bucket) (length ds) ds) = liveSlots ds"
    by (simp add: calledSlots_slotEvents concat_map_filter_id liveSlots_def)
  have "(\<lambda>i. calledSlots (snd (snd (DeleteBucket_slot env bucket force i (ds ! i)))))
          = (\<lambda>i. if ds ! i \<noteq> None then [i] else [])"
    by (auto simp: DeleteBucket_slot_def obs_Cons split: option.split)
  then show "calledSlots (slotEvents (DeleteBucket_slot env bucket force) (length ds) ds) = liveSlots ds"
    by (simp add: calledSlots_slotEvents concat_map_filter_id liveSlots_def)
  have "(\<lambda>i. calledSlots (snd (snd (getBucketInfo_slot env bucket i (ds ! i)))))
          = (\<lambda>i. if ds ! i \<noteq> None then [i] else [])"
    by (auto simp: getBucketInfo_slot_def obs_Cons split: option.split)
  then show "calledSlots (slotEvents (getBucketInfo_slot env bucket) (length ds) ds) = liveSlots ds"
    by (simp add: calledSlots_slotEvents concat_map_filter_id liveSlots_def)
qed

lemma absent_not_live: "ds ! i = None \<Longrightarrow> i \<notin> set (liveSlots ds)"
  by (simp add: liveSlots_def)

lemma getBucketInfo_fanout_getReadQuorum:
  "getBucketInfo_fanout (env\<lparr>getReadQuorum := q\<rparr>) b w = getBucketInfo_fanout env b w"
proof -
  have "getBucketInfo_slot (env\<lparr>getReadQuorum := q\<rparr>) b = getBucketInfo_slot env b"
    by (intro ext) (simp add: getBucketInfo_slot_def split: option.split)
  moreover have "slotInfos (env\<lparr>getReadQuorum := q\<rparr>) b = slotInfos env b"
    by (intro ext) (simp add: slotInfos_def split: option.split)
  ultimately show ?thesis
    by (simp add: getBucketInfo_fanout_eq)
qed

lemma getBucketInfo_fanout_success:
  assumes "i < length (disks w)" "fst (getBucketInfo_fanout env b w) ! i = None"
  shows "\<exists>d v. disks w ! i = Some d \<and> fst (StatVol env d b) = Inr v
               \<and> fst (snd (getBucketInfo_fanout env b w)) ! i = v"
  using assms
  by (auto simp: getBucketInfo_fanout_eq nth_slotErrs getBucketInfo_slot_def slotInfos_def
        split: option.splits sum.splits)

text \<open>The reduction when one error holds a majority quorum.\<close>

lemma count_list_two: "x \<noteq> y \<Longrightarrow> count_list xs x + count_list xs y \<le> length xs"
  by (induction xs) auto

lemma count_realErrs:
  "x \<notin> set ign \<Longrightarrow> count_list (realErrs errs ign) x = count_list errs (Some x)"
  by (induction errs) (auto simp: realErrs_def split: option.split)

lemma length_realErrs: "length (realErrs errs ign) \<le> length errs"
  by (induction errs) (auto simp: realErrs_def split: option.split)

lemma foldl_dominantStep:
  assumes "\<forall>e c. b = Some (e, c) \<longrightarrow> c = count_list xs e" and "ys \<noteq> [] \<or> b \<noteq> None"
  shows "\<exists>e. foldl (dominantStep xs) b ys = Some (e, count_list xs e)
             \<and> (\<forall>y\<in>set ys. count_list xs y \<le> count_list xs e)
             \<and> (\<forall>e' c'. b = Some (e', c') \<longrightarrow> c' \<le> count_list xs e)"
  using assms
proof (induction ys arbitrary: b)
  case Nil
  then show ?case by auto
next
  case (Cons y ys)
  have "\<exists>e'. dominantStep xs b y = Some (e', count_list xs e')
            \<and> count_list xs y \<le> count_list xs e'
            \<and> (\<forall>e c. b = Some (e, c) \<longrightarrow> c \<le> count_list xs e')"
  proof (cases b)
    case None
    then show ?thesis by (simp add: dominantStep_def)
  next
    case (Some p)
    obtain a c where p: "p = (a, c)" by (cases p)
    with Some Cons.prems(1) have c: "c = count_list xs a" by simp
    show ?thesis
      by (cases "count_list xs a < count_list xs y") (simp_all add: Some p c dominantStep_def)
  qed
  then obtain e' where b': "dominantStep xs b y = Some (e', count_list xs e')"
    and le: "count_list xs y \<le> count_list xs e'"
    and mono: "\<forall>e c. b = Some (e, c) \<longrightarrow> c \<le> count_list xs e'"
    by blast
  from Cons.IH [of "dominantStep xs b y"] b'
  obtain e where "foldl (dominantStep xs) (dominantStep xs b y) ys = Some (e, count_list xs e)"
    "\<forall>y\<in>set ys. count_list xs y \<le> count_list xs e" "count_list xs e' \<le> count_list xs e"
    by auto
  with le mono show ?case
    by (intro exI [of _ e]) (fastforce intro: order_trans)
qed

lemma dominantErr_majority:
  assumes "q \<le> count_list xs x" "length xs < 2 * q"
  shows "dominantErr xs = Some (x, count_list xs x)"
proof -
  from assms have pos: "0 < count_list xs x" by (cases q) auto
  then have x: "x \<in> set xs" by (metis count_list_0_iff less_numeral_extra(3))
  then have "xs \<noteq> []" by auto
  with foldl_dominantStep [of None xs xs] obtain e where
    e: "dominantErr xs = Some (e, count_list xs e)" "\<forall>y\<in>set xs. count_list xs y \<le> count_list xs e"
    unfolding dominantErr_def by auto
  have "e = x"
  proof (rule ccontr)
    assume "e \<noteq> x"
    then have "count_list xs e + count_list xs x \<le> length xs" by (rule count_list_two)
    moreover have "count_list xs x \<le> count_list xs e" using e(2) x by simp
    ultimately show False using assms by linarith
  qed
  with e(1) show ?thesis by simp
qed

lemma reduceWriteQuorumErrs_majority:
  assumes "x \<notin> set ign" "q \<le> count_list errs (Some x)" "length errs < 2 * q"
  shows "reduceWriteQuorumErrs errs ign q = Some x"
proof -
  have "count_list errs None + count_list errs (Some x) \<le> length errs"
    by (rule count_list_two) simp
  with assms have none: "\<not> q \<le> count_list errs None" by linarith
  have "q \<le> count_list (realErrs errs ign) x"
    using assms(1,2) by (simp add: count_realErrs)
  moreover have "length (realErrs errs ign) < 2 * q"
    using length_realErrs [of errs ign] assms(3) by linarith
  ultimately have "dominantErr (realErrs errs ign) = Some (x, count_list (realErrs errs ign) x)"
    by (rule dominantErr_majority)
  with none assms(1,2) show ?thesis
    by (simp add: reduceWriteQuorumErrs_def reduceQuorumErrs_def count_realErrs)
qed

lemma notFound_counted: "errVolumeNotFound \<notin> set bucketOpIgnoredErrs"
  by (simp add: bucketOpIgnoredErrs_def baseIgnoredErrs_def)

lemma length_MakeBucket_fanout:
  "length (fst (MakeBucket_fanout env bucket w)) = length (disks w)"
  by (simp add: MakeBucket_fanout_eq)

section \<open>MakeBucketWithLocation: the name check\<close>

text \<open>
  C9. When the bucket name fails validation, MakeBucketWithLocation returns
  \<^verbatim>\<open>BucketNameInvalid\<close> for that bucket and no storage call is made: the disks are left as
  they were and the only event is the deferred namespace notification, so the error
  never enters the fan-out or the quorum reduction.
\<close>

theorem MakeBucket_invalid_name:
  assumes "CheckValidBucketNameStrict env bucket = Some msg"
  shows "fst (MakeBucketWithLocation env bucket w) = Some (BucketNameInvalid bucket)
       \<and> disks (snd (MakeBucketWithLocation env bucket w)) = disks w
       \<and> trace (snd (MakeBucketWithLocation env bucket w)) = trace w @ [ENSUpdated bucket slashSeparator]
       \<and> calledSlots (trace (snd (MakeBucketWithLocation env bucket w))) = calledSlots (trace w)"
  using assms by (simp add: MakeBucketWithLocation_def NSUpdated_def calledSlots_def)

theorem MakeBucket_invalid_name_witness:
  "CheckValidBucketNameStrict scriptedEnv ''ab'' \<noteq> None
   \<and> fst (MakeBucketWithLocation scriptedEnv ''ab'' (freshWorld [making None, making None]))
       = Some (BucketNameInvalid ''ab'')
   \<and> trace (snd (MakeBucketWithLocation scriptedEnv ''ab'' (freshWorld [making None, making None])))
       = [ENSUpdated ''ab'' ''/'']"
proof -
  have h: "CheckValidBucketNameStrict scriptedEnv ''ab''
             = Some ''Bucket name cannot be shorter than 3 characters''"
    by (simp add: scriptedEnv_def)
  show ?thesis
    using MakeBucket_invalid_name [OF h, of "freshWorld [making None, making None]"] h
    by (simp add: freshWorld_def slashSeparator_def)
qed

section \<open>DeleteBucket without force: the buckets left behind\<close>

text \<open>
  C1 (as amended). DeleteBucket without force: when exactly \<open>k\<close> slots with a live disk
  report that the volume is not empty, \<open>k\<close> is at least one, every other slot reports
  volume not found or success, and the write-quorum reduction of the delete errors
  yields success or volume not found, then DeleteBucket returns success and issues
  exactly \<open>k\<close> \<^verbatim>\<open>RenameFile\<close> calls into the holding area for deleted buckets, one per such
  slot, in slot order.

  As stated, without the condition on the reduction, the claim fails: when three of
  four disks report a volume that is not empty, the reduction yields that error,
  DeleteBucket returns it and no \<^verbatim>\<open>RenameFile\<close> is issued.
\<close>

theorem DeleteBucket_quarantine:
  fixes env :: "'d env" and w :: "'d world" and bucket :: string and opts :: DeleteBucketOptions
  assumes "\<not> Force opts"
  defines "dErrs \<equiv> fst (DeleteBucket_fanout env bucket (Force opts) w)"
  defines "e \<equiv> reduceWriteQuorumErrs dErrs bucketOpIgnoredErrs (getWriteQuorum env (length (disks w)))"
  assumes "length (notEmptySlots dErrs (disks w)) = k" and "0 < k"
    and "set dErrs \<subseteq> {Some errVolumeNotEmpty, Some errVolumeNotFound, None}"
    and "e = None \<or> e = Some errVolumeNotFound"
  shows "fst (DeleteBucket env bucket opts w) = None
       \<and> renames (trace (snd (DeleteBucket env bucket opts w))) =
           renames (trace w) @
             map (\<lambda>i. (i, bucket, [], minioMetaTmpDeletedBucket)) (notEmptySlots dErrs (disks w))
       \<and> length (renames (trace (snd (DeleteBucket env bucket opts w)))) = length (renames (trace w)) + k"
proof -
  have ne: "notEmptySlots dErrs (disks w) \<noteq> []"
    using assms(4,5) by auto
  note Q = DeleteBucket_quorum_mode [OF assms(1), of env bucket w, folded dErrs_def, folded e_def]
  have "fst (DeleteBucket env bucket opts w) = None"
    unfolding Q(1) using ne assms(7) by (auto simp: toObjectErr'_def)
  moreover have "renames (trace (snd (DeleteBucket env bucket opts w))) =
           renames (trace w) @
             map (\<lambda>i. (i, bucket, [], minioMetaTmpDeletedBucket)) (notEmptySlots dErrs (disks w))"
    unfolding Q(2) using assms(7) by auto
  ultimately show ?thesis
    using assms(4) by simp
qed

theorem DeleteBucket_quarantine_witness:
  "fst (DeleteBucket_fanout scriptedEnv ''bucket'' False
          (deleteWorld [Some errVolumeNotEmpty, Some errVolumeNotFound, Some errVolumeNotFound,
                        Some errVolumeNotFound]))
     = [Some errVolumeNotEmpty, Some errVolumeNotFound, Some errVolumeNotFound, Some errVolumeNotFound]
   \<and> getWriteQuorum scriptedEnv 4 = 3
   \<and> fst (DeleteBucket scriptedEnv ''bucket'' quorumOpts
            (deleteWorld [Some errVolumeNotEmpty, Some errVolumeNotFound, Some errVolumeNotFound,
                          Some errVolumeNotFound])) = None
   \<and> renames (trace (snd (DeleteBucket scriptedEnv ''bucket'' quorumOpts
            (deleteWorld [Some errVolumeNotEmpty, Some errVolumeNotFound, Some errVolumeNotFound,
                          Some errVolumeNotFound]))))
       = [(0, ''bucket'', [], minioMetaTmpDeletedBucket)]"
proof -
  let ?w = "deleteWorld [Some errVolumeNotEmpty, Some errVolumeNotFound, Some errVolumeNotFound,
                          Some errVolumeNotFound]"
  let ?dErrs = "fst (DeleteBucket_fanout scriptedEnv ''bucket'' (Force quorumOpts) ?w)"
  have h1: "\<not> Force quorumOpts"
    by (simp add: quorumOpts_def)
  have d: "?dErrs = [Some errVolumeNotEmpty, Some errVolumeNotFound, Some errVolumeNotFound,
                     Some errVolumeNotFound]"
    by code_simp
  have h2: "length (notEmptySlots ?dErrs (disks ?w)) = 1"
    by code_simp
  have h3: "set ?dErrs \<subseteq> {Some errVolumeNotEmpty, Some errVolumeNotFound, None}"
    unfolding d by simp
  have h4: "reduceWriteQuorumErrs ?dErrs bucketOpIgnoredErrs (getWriteQuorum scriptedEnv (length (disks ?w))) = None
          \<or> reduceWriteQuorumErrs ?dErrs bucketOpIgnoredErrs (getWriteQuorum scriptedEnv (length (disks ?w)))
              = Some errVolumeNotFound"
    by code_simp
  have n: "notEmptySlots ?dErrs (disks ?w) = [0]"
    by code_simp
  have q: "getWriteQuorum scriptedEnv 4 = 3"
    by code_simp
  have t: "renames (trace ?w) = []"
    by code_simp
  from DeleteBucket_quarantine [OF h1 h2 _ h3 h4] d n q t show ?thesis
    by (simp add: quorumOpts_def)
qed

theorem DeleteBucket_quarantine_counterexample:
  "fst (DeleteBucket_fanout scriptedEnv ''bucket'' False
          (deleteWorld [Some errVolumeNotEmpty, Some errVolumeNotEmpty, Some errVolumeNotEmpty,
                        Some errVolumeNotFound]))
     = [Some errVolumeNotEmpty, Some errVolumeNotEmpty, Some errVolumeNotEmpty, Some errVolumeNotFound]
   \<and> notEmptySlots [Some errVolumeNotEmpty, Some errVolumeNotEmpty, Some errVolumeNotEmpty,
                     Some errVolumeNotFound]
         (disks (deleteWorld [Some errVolumeNotEmpty, Some errVolumeNotEmpty, Some errVolumeNotEmpty,
                              Some errVolumeNotFound])) = [0, 1, 2]
   \<and> reduceWriteQuorumErrs [Some errVolumeNotEmpty, Some errVolumeNotEmpty, Some errVolumeNotEmpty,
                             Some errVolumeNotFound] bucketOpIgnoredErrs (getWriteQuorum scriptedEnv 4)
       = Some errVolumeNotEmpty
   \<and> fst (DeleteBucket scriptedEnv ''bucket'' quorumOpts
            (deleteWorld [Some errVolumeNotEmpty, Some errVolumeNotEmpty, Some errVolumeNotEmpty,
                          Some errVolumeNotFound])) = Some (BucketNotEmpty ''bucket'')
   \<and> renames (trace (snd (DeleteBucket scriptedEnv ''bucket'' quorumOpts
            (deleteWorld [Some errVolumeNotEmpty, Some errVolumeNotEmpty, Some errVolumeNotEmpty,
                          Some errVolumeNotFound])))) = []"
  by code_simp

text \<open>
  C2 (as amended). DeleteBucket without force: a slot with a live disk whose delete
  reported a volume that is not empty has its bucket moved into the holding area for
  deleted buckets exactly when the write-quorum reduction of the delete errors yields
  success or volume not found; each such slot then gets one \<^verbatim>\<open>RenameFile\<close>. For every
  other outcome of the reduction (the write-quorum sentinel included) no \<^verbatim>\<open>RenameFile\<close>
  is issued.

  As stated (the inspection runs whatever the reduction returned) the claim fails: with
  two disks reporting a volume that is not empty and two reporting volume not found, the
  reduction yields the write-quorum sentinel and no bucket is moved.
\<close>

theorem DeleteBucket_purge_guard:
  fixes env :: "'d env" and w :: "'d world" and bucket :: string and opts :: DeleteBucketOptions
  assumes "\<not> Force opts"
  defines "dErrs \<equiv> fst (DeleteBucket_fanout env bucket (Force opts) w)"
  defines "e \<equiv> reduceWriteQuorumErrs dErrs bucketOpIgnoredErrs (getWriteQuorum env (length (disks w)))"
  shows "renames (trace (snd (DeleteBucket env bucket opts w))) =
           renames (trace w) @
             (if e = None \<or> e = Some errVolumeNotFound
              then map (\<lambda>i. (i, bucket, [], minioMetaTmpDeletedBucket)) (notEmptySlots dErrs (disks w))
              else [])"
  using DeleteBucket_quorum_mode(2) [OF assms(1), of env bucket w]
  by (simp only: dErrs_def e_def)

theorem DeleteBucket_purge_guard_witness:
  "reduceWriteQuorumErrs [None, None, None, Some errVolumeNotEmpty] bucketOpIgnoredErrs
       (getWriteQuorum scriptedEnv 4) = None
   \<and> renames (trace (snd (DeleteBucket scriptedEnv ''bucket'' quorumOpts
              (deleteWorld [None, None, None, Some errVolumeNotEmpty]))))
       = [(3, ''bucket'', [], minioMetaTmpDeletedBucket)]
   \<and> reduceWriteQuorumErrs [Some errDiskAccessDenied, None, Some errVolumeNotEmpty, Some errDiskAccessDenied]
       bucketOpIgnoredErrs (getWriteQuorum scriptedEnv 4) = Some errErasureWriteQuorum
   \<and> renames (trace (snd (DeleteBucket scriptedEnv ''bucket'' quorumOpts
              (deleteWorld [Some errDiskAccessDenied, None, Some errVolumeNotEmpty, Some errDiskAccessDenied]))))
       = []"
proof -
  let ?w1 = "deleteWorld [None, None, None, Some errVolumeNotEmpty]"
  let ?w2 = "deleteWorld [Some errDiskAccessDenied, None, Some errVolumeNotEmpty, Some errDiskAccessDenied]"
  have h: "\<not> Force quorumOpts"
    by (simp add: quorumOpts_def)
  have d1: "fst (DeleteBucket_fanout scriptedEnv ''bucket'' (Force quorumOpts) ?w1)
              = [None, None, None, Some errVolumeNotEmpty]"
    by code_simp
  have d2: "fst (DeleteBucket_fanout scriptedEnv ''bucket'' (Force quorumOpts) ?w2)
              = [Some errDiskAccessDenied, None, Some errVolumeNotEmpty, Some errDiskAccessDenied]"
    by code_simp
  have l: "length (disks ?w1) = 4" "length (disks ?w2) = 4"
    by code_simp+
  have r1: "reduceWriteQuorumErrs [None, None, None, Some errVolumeNotEmpty] bucketOpIgnoredErrs
              (getWriteQuorum scriptedEnv 4) = None"
    by code_simp
  have r2: "reduceWriteQuorumErrs [Some errDiskAccessDenied, None, Some errVolumeNotEmpty, Some errDiskAccessDenied]
              bucketOpIgnoredErrs (getWriteQuorum scriptedEnv 4) = Some errErasureWriteQuorum"
    by code_simp
  have n1: "notEmptySlots [None, None, None, Some errVolumeNotEmpty] (disks ?w1) = [3]"
    by code_simp
  have t: "renames (trace ?w1) = []" "renames (trace ?w2) = []"
    by code_simp+
  from DeleteBucket_purge_guard [OF h, of scriptedEnv "''bucket''" ?w1]
       DeleteBucket_purge_guard [OF h, of scriptedEnv "''bucket''" ?w2]
  show ?thesis
    unfolding d1 d2 l r1 r2 n1 t by simp
qed

theorem DeleteBucket_purge_guard_counterexample:
  "fst (DeleteBucket_fanout scriptedEnv ''bucket'' False
          (deleteWorld [Some errVolumeNotEmpty, Some errVolumeNotEmpty, Some errVolumeNotFound,
                        Some errVolumeNotFound]))
     = [Some errVolumeNotEmpty, Some errVolumeNotEmpty, Some errVolumeNotFound, Some errVolumeNotFound]
   \<and> notEmptySlots [Some errVolumeNotEmpty, Some errVolumeNotEmpty, Some errVolumeNotFound,
                     Some errVolumeNotFound]
         (disks (deleteWorld [Some errVolumeNotEmpty, Some errVolumeNotEmpty, Some errVolumeNotFound,
                              Some errVolumeNotFound])) = [0, 1]
   \<and> reduceWriteQuorumErrs [Some errVolumeNotEmpty, Some errVolumeNotEmpty, Some errVolumeNotFound,
                             Some errVolumeNotFound] bucketOpIgnoredErrs (getWriteQuorum scriptedEnv 4)
       = Some errErasureWriteQuorum
   \<and> renames (trace (snd (DeleteBucket scriptedEnv ''bucket'' quorumOpts
            (deleteWorld [Some errVolumeNotEmpty, Some errVolumeNotEmpty, Some errVolumeNotFound,
                          Some errVolumeNotFound])))) = []"
  by code_simp

section \<open>DeleteBucket: the rollback\<close>

text \<open>
  C3. DeleteBucket without force: \<^verbatim>\<open>undoDeleteBucket\<close> is entered exactly once, and
  \<^verbatim>\<open>MakeVol\<close> is then called on every live slot, when the write-quorum reduction of the
  delete errors yields the write-quorum sentinel and \<^verbatim>\<open>NoRecreate\<close> is false; it is not
  entered when \<^verbatim>\<open>NoRecreate\<close> is true, nor when the reduction yields anything else.
\<close>

theorem DeleteBucket_rollback_quorum:
  fixes env :: "'d env" and w :: "'d world" and bucket :: string and opts :: DeleteBucketOptions
  assumes "\<not> Force opts"
  defines "dErrs \<equiv> fst (DeleteBucket_fanout env bucket (Force opts) w)"
  defines "e \<equiv> reduceWriteQuorumErrs dErrs bucketOpIgnoredErrs (getWriteQuorum env (length (disks w)))"
  shows "undos (trace (snd (DeleteBucket env bucket opts w))) =
           undos (trace w) @ (if e = Some errErasureWriteQuorum \<and> \<not> NoRecreate opts then [bucket] else [])
       \<and> makeVols (trace (snd (DeleteBucket env bucket opts w))) =
           makeVols (trace w) @
             (if e = Some errErasureWriteQuorum \<and> \<not> NoRecreate opts
              then map (\<lambda>i. (i, bucket)) (liveSlots (disks w)) else [])"
  using DeleteBucket_quorum_mode(3,4) [OF assms(1), of env bucket w]
  by (simp only: dErrs_def e_def)

theorem DeleteBucket_rollback_quorum_witness:
  "reduceWriteQuorumErrs [Some (errOther ''timeout''), Some (errOther ''timeout''), None, None]
       bucketOpIgnoredErrs (getWriteQuorum scriptedEnv 4) = Some errErasureWriteQuorum
   \<and> undos (trace (snd (DeleteBucket scriptedEnv ''bucket'' quorumOpts
        (deleteWorld [Some (errOther ''timeout''), Some (errOther ''timeout''), None, None]))))
       = [''bucket'']
   \<and> makeVols (trace (snd (DeleteBucket scriptedEnv ''bucket'' quorumOpts
        (deleteWorld [Some (errOther ''timeout''), Some (errOther ''timeout''), None, None]))))
       = [(0, ''bucket''), (1, ''bucket''), (2, ''bucket''), (3, ''bucket'')]
   \<and> undos (trace (snd (DeleteBucket scriptedEnv ''bucket'' (quorumOpts\<lparr>NoRecreate := True\<rparr>)
        (deleteWorld [Some (errOther ''timeout''), Some (errOther ''timeout''), None, None]))))
       = []"
proof -
  let ?w = "deleteWorld [Some (errOther ''timeout''), Some (errOther ''timeout''), None, None]"
  have h: "\<not> Force quorumOpts" "\<not> Force (quorumOpts\<lparr>NoRecreate := True\<rparr>)"
    by (simp_all add: quorumOpts_def)
  have d: "fst (DeleteBucket_fanout scriptedEnv ''bucket'' False ?w)
              = [Some (errOther ''timeout''), Some (errOther ''timeout''), None, None]"
    by code_simp
  have l: "length (disks ?w) = 4"
    by code_simp
  have r: "reduceWriteQuorumErrs [Some (errOther ''timeout''), Some (errOther ''timeout''), None, None]
              bucketOpIgnoredErrs (getWriteQuorum scriptedEnv 4) = Some errErasureWriteQuorum"
    by code_simp
  have t: "undos (trace ?w) = []" "makeVols (trace ?w) = []" "liveSlots (disks ?w) = [0, 1, 2, 3]"
    by code_simp+
  from DeleteBucket_rollback_quorum [OF h(1), of scriptedEnv "''bucket''" ?w]
       DeleteBucket_rollback_quorum [OF h(2), of scriptedEnv "''bucket''" ?w]
  show ?thesis
    using d l r t by (simp add: quorumOpts_def)
qed

section \<open>DeleteBucket without force: the result of the move\<close>



section \<open>DeleteBucket with force\<close>

text \<open>
  C4. DeleteBucket with force: when some slot reports an error, \<^verbatim>\<open>undoDeleteBucket\<close> is
  entered once (\<^verbatim>\<open>MakeVol\<close> on every live slot) and the caller gets the translation of the
  error of the first such slot in index order, however many other slots succeeded; when
  every slot reports \<^verbatim>\<open>nil\<close>, DeleteBucket returns success without rollback, whatever the
  write quorum is.
\<close>

theorem DeleteBucket_force_mode:
  fixes env :: "'d env" and w :: "'d world" and bucket :: string and opts :: DeleteBucketOptions
  assumes "Force opts"
  defines "dErrs \<equiv> fst (DeleteBucket_fanout env bucket (Force opts) w)"
  shows "(\<forall>i x. i < length (disks w) \<and> dErrs ! i = Some x \<and> (\<forall>j<i. dErrs ! j = None) \<longrightarrow>
            fst (DeleteBucket env bucket opts w) = Some (toObjectErr env x bucket)
          \<and> undos (trace (snd (DeleteBucket env bucket opts w))) = undos (trace w) @ [bucket]
          \<and> makeVols (trace (snd (DeleteBucket env bucket opts w))) =
              makeVols (trace w) @ map (\<lambda>i. (i, bucket)) (liveSlots (disks w)))
       \<and> ((\<forall>i<length (disks w). dErrs ! i = None) \<longrightarrow>
            fst (DeleteBucket env bucket opts w) = None
          \<and> undos (trace (snd (DeleteBucket env bucket opts w))) = undos (trace w)
          \<and> makeVols (trace (snd (DeleteBucket env bucket opts w))) = makeVols (trace w))"
proof (intro conjI allI impI)
  define w1 where "w1 = snd (DeleteBucket_fanout env bucket (Force opts) w)"
  note D = DeleteBucket_force_unfold [OF assms(1), of env bucket w, folded dErrs_def w1_def]
  have len: "length dErrs = length (disks w)"
    by (simp add: dErrs_def length_DeleteBucket_fanout)
  have tr: "undos (trace w1) = undos (trace w)" "makeVols (trace w1) = makeVols (trace w)"
    "liveSlots (disks w1) = liveSlots (disks w)"
    by (simp_all add: w1_def trace_DeleteBucket_fanout liveSlots_DeleteBucket_fanout)
  {
    fix i x
    assume a: "i < length (disks w) \<and> dErrs ! i = Some x \<and> (\<forall>j<i. dErrs ! j = None)"
    then have "find (\<lambda>e. e \<noteq> None) dErrs = Some (Some x)"
      unfolding find_Some_iff using len by (intro exI [of _ i]) simp
    then have E: "DeleteBucket env bucket opts w =
        (toObjectErr' env (Some x) bucket, NSUpdated bucket slashSeparator (undoDeleteBucket env bucket w1))"
      by (simp add: D)
    show "fst (DeleteBucket env bucket opts w) = Some (toObjectErr env x bucket)"
      by (simp add: E toObjectErr'_def)
    show "undos (trace (snd (DeleteBucket env bucket opts w))) = undos (trace w) @ [bucket]"
      by (simp add: E trace_undoDeleteBucket tr)
    show "makeVols (trace (snd (DeleteBucket env bucket opts w))) =
              makeVols (trace w) @ map (\<lambda>i. (i, bucket)) (liveSlots (disks w))"
      by (simp add: E trace_undoDeleteBucket tr)
  }
  {
    assume a: "\<forall>i<length (disks w). dErrs ! i = None"
    then have "find (\<lambda>e. e \<noteq> None) dErrs = None"
      unfolding find_None_iff using len by (auto simp: in_set_conv_nth)
    then have E: "DeleteBucket env bucket opts w = (None, NSUpdated bucket slashSeparator w1)"
      by (simp add: D)
    show "fst (DeleteBucket env bucket opts w) = None"
      by (simp add: E)
    show "undos (trace (snd (DeleteBucket env bucket opts w))) = undos (trace w)"
      by (simp add: E tr)
    show "makeVols (trace (snd (DeleteBucket env bucket opts w))) = makeVols (trace w)"
      by (simp add: E tr)
  }
qed

theorem DeleteBucket_force_mode_witness:
  "fst (DeleteBucket_fanout scriptedEnv ''bucket'' True (deleteWorld [None, None, None, Some errDiskAccessDenied]))
     = [None, None, None, Some errDiskAccessDenied]
   \<and> fst (DeleteBucket scriptedEnv ''bucket'' forceOpts (deleteWorld [None, None, None, Some errDiskAccessDenied]))
       = Some (StorageErr errDiskAccessDenied)
   \<and> undos (trace (snd (DeleteBucket scriptedEnv ''bucket'' forceOpts
                          (deleteWorld [None, None, None, Some errDiskAccessDenied])))) = [''bucket'']
   \<and> makeVols (trace (snd (DeleteBucket scriptedEnv ''bucket'' forceOpts
                          (deleteWorld [None, None, None, Some errDiskAccessDenied]))))
       = [(0, ''bucket''), (1, ''bucket''), (2, ''bucket''), (3, ''bucket'')]
   \<and> fst (DeleteBucket_fanout (scriptedEnv\<lparr>getWriteQuorum := (\<lambda>n. Suc n)\<rparr>) ''bucket'' True
            (deleteWorld [None, None])) = [None, None]
   \<and> fst (DeleteBucket (scriptedEnv\<lparr>getWriteQuorum := (\<lambda>n. Suc n)\<rparr>) ''bucket'' forceOpts
            (deleteWorld [None, None])) = None
   \<and> undos (trace (snd (DeleteBucket (scriptedEnv\<lparr>getWriteQuorum := (\<lambda>n. Suc n)\<rparr>) ''bucket'' forceOpts
            (deleteWorld [None, None])))) = []
   \<and> makeVols (trace (snd (DeleteBucket (scriptedEnv\<lparr>getWriteQuorum := (\<lambda>n. Suc n)\<rparr>) ''bucket'' forceOpts
            (deleteWorld [None, None])))) = []
   \<and> fst (DeleteBucket (scriptedEnv\<lparr>getWriteQuorum := (\<lambda>n. Suc n)\<rparr>) ''bucket'' quorumOpts
            (deleteWorld [None, None])) = Some InsufficientWriteQuorum"
proof -
  let ?w = "deleteWorld [None, None, None, Some errDiskAccessDenied]"
  let ?v = "deleteWorld [None, None]"
  let ?env = "scriptedEnv\<lparr>getWriteQuorum := (\<lambda>n. Suc n)\<rparr>"
  have h: "Force forceOpts"
    by (simp add: forceOpts_def)
  have d: "fst (DeleteBucket_fanout scriptedEnv ''bucket'' (Force forceOpts) ?w)
             = [None, None, None, Some errDiskAccessDenied]"
    by code_simp
  have d': "fst (DeleteBucket_fanout ?env ''bucket'' (Force forceOpts) ?v) = [None, None]"
    by code_simp
  have l: "length (disks ?w) = 4" "length (disks ?v) = 2"
    by code_simp+
  have t: "undos (trace ?w) = []" "makeVols (trace ?w) = []" "liveSlots (disks ?w) = [0, 1, 2, 3]"
    "undos (trace ?v) = []" "makeVols (trace ?v) = []"
    by code_simp+
  have x: "toObjectErr scriptedEnv errDiskAccessDenied ''bucket'' = StorageErr errDiskAccessDenied"
    by code_simp
  have p: "(3::nat) < 4 \<and> [None, None, None, Some errDiskAccessDenied] ! 3 = Some errDiskAccessDenied
            \<and> (\<forall>j<3. [None, None, None, Some errDiskAccessDenied] ! j = None)"
    by (simp add: nth_Cons split: nat.split)
  have q: "\<forall>i<2. [None, None] ! i = (None :: err option)"
    by (simp add: nth_Cons split: nat.split)
  note A = DeleteBucket_force_mode [where env = scriptedEnv and bucket = "''bucket''" and w = ?w
             and opts = forceOpts, OF h, unfolded d l t,
             THEN conjunct1, rule_format, OF p, unfolded x]
  note B = DeleteBucket_force_mode [where env = ?env and bucket = "''bucket''" and w = ?v
             and opts = forceOpts, OF h, unfolded d' l t,
             THEN conjunct2, THEN mp, OF q]
  have n: "fst (DeleteBucket ?env ''bucket'' quorumOpts ?v) = Some InsufficientWriteQuorum"
    by code_simp
  from A B d d' h n show ?thesis
    by simp
qed

section \<open>undoDeleteBucket\<close>

text \<open>
  C7. \<^verbatim>\<open>undoDeleteBucket\<close> calls \<^verbatim>\<open>MakeVol\<close> once on every slot with a live disk, in the
  model in slot order, and on no absent slot; every error of \<^verbatim>\<open>MakeVol\<close> is dropped (the
  error vector of the group is all \<^verbatim>\<open>nil\<close> and the function returns no error); and when
  it returns, every one of these calls has run: the disks it returns are the disks after
  \<^verbatim>\<open>MakeVol\<close>.
\<close>

theorem undoDeleteBucket_best_effort:
  "fst (undoDeleteBucket_group env bucket w) = replicate (length (disks w)) None
   \<and> trace (undoDeleteBucket env bucket w) =
       trace w @ EUndoDeleteBucket bucket # map (\<lambda>i. EMakeVol i bucket) (liveSlots (disks w))
   \<and> disks (undoDeleteBucket env bucket w) = map (map_option (\<lambda>d. snd (MakeVol env d bucket))) (disks w)
   \<and> uuidCount (undoDeleteBucket env bucket w) = uuidCount w"
  by (simp add: undoDeleteBucket_def undoDeleteBucket_group_eq undoDeleteBucket_errs
        undoDeleteBucket_events undoDeleteBucket_disks)

theorem undoDeleteBucket_best_effort_witness:
  "fst (MakeVol scriptedEnv (the (making (Some errFaultyDisk))) ''bucket'') = Some errFaultyDisk
   \<and> fst (undoDeleteBucket_group scriptedEnv ''bucket''
            (freshWorld [making (Some errFaultyDisk), None, making None])) = [None, None, None]
   \<and> trace (undoDeleteBucket scriptedEnv ''bucket''
            (freshWorld [making (Some errFaultyDisk), None, making None]))
       = [EUndoDeleteBucket ''bucket'', EMakeVol 0 ''bucket'', EMakeVol 2 ''bucket'']"
proof -
  let ?w = "freshWorld [making (Some errFaultyDisk), None, making None]"
  have f: "fst (MakeVol scriptedEnv (the (making (Some errFaultyDisk))) ''bucket'') = Some errFaultyDisk"
    by code_simp
  have l: "replicate (length (disks ?w)) (None :: err option) = [None, None, None]"
    "liveSlots (disks ?w) = [0, 2]" "trace ?w = []"
    by code_simp+
  from undoDeleteBucket_best_effort [of scriptedEnv "''bucket''" ?w] f show ?thesis
    unfolding l by simp
qed

section \<open>The fan-outs and absent disks\<close>

text \<open>
  C8. In the fan-out of MakeBucketWithLocation (\<^verbatim>\<open>MakeVol\<close>), of getBucketInfo
  (\<^verbatim>\<open>StatVol\<close>) and of DeleteBucket (\<^verbatim>\<open>DeleteVol\<close>), the error vector has one entry per slot
  of the disk set, the storage call is made on the live slots only, and the entry of a
  slot whose handle is absent is \<^verbatim>\<open>errDiskNotFound\<close>.
\<close>

theorem fanout_absent_slot:
  "length (fst (MakeBucket_fanout env bucket w)) = length (disks w)
   \<and> calledSlots (trace (snd (MakeBucket_fanout env bucket w))) = calledSlots (trace w) @ liveSlots (disks w)
   \<and> length (fst (getBucketInfo_fanout env bucket w)) = length (disks w)
   \<and> calledSlots (trace (snd (snd (getBucketInfo_fanout env bucket w))))
       = calledSlots (trace w) @ liveSlots (disks w)
   \<and> length (fst (DeleteBucket_fanout env bucket force w)) = length (disks w)
   \<and> calledSlots (trace (snd (DeleteBucket_fanout env bucket force w)))
       = calledSlots (trace w) @ liveSlots (disks w)
   \<and> (\<forall>i<length (disks w). disks w ! i = None \<longrightarrow>
         i \<notin> set (liveSlots (disks w))
       \<and> fst (MakeBucket_fanout env bucket w) ! i = Some errDiskNotFound
       \<and> fst (getBucketInfo_fanout env bucket w) ! i = Some errDiskNotFound
       \<and> fst (DeleteBucket_fanout env bucket force w) ! i = Some errDiskNotFound)"
  by (simp add: MakeBucket_fanout_eq getBucketInfo_fanout_eq DeleteBucket_fanout_eq called_events
        nth_slotErrs MakeBucket_slot_def getBucketInfo_slot_def DeleteBucket_slot_def absent_not_live)

theorem fanout_absent_slot_witness:
  "fst (MakeBucket_fanout scriptedEnv ''bucket'' (freshWorld [making None, None, making None]))
     = [None, Some errDiskNotFound, None]
   \<and> calledSlots (trace (snd (MakeBucket_fanout scriptedEnv ''bucket''
        (freshWorld [making None, None, making None])))) = [0, 2]
   \<and> fst (getBucketInfo_fanout scriptedEnv ''bucket'' (freshWorld [making None, None, making None]))
     = [Some errVolumeNotFound, Some errDiskNotFound, Some errVolumeNotFound]
   \<and> calledSlots (trace (snd (snd (getBucketInfo_fanout scriptedEnv ''bucket''
        (freshWorld [making None, None, making None]))))) = [0, 2]
   \<and> fst (DeleteBucket_fanout scriptedEnv ''bucket'' False (freshWorld [making None, None, making None]))
     = [None, Some errDiskNotFound, None]
   \<and> calledSlots (trace (snd (DeleteBucket_fanout scriptedEnv ''bucket'' False
        (freshWorld [making None, None, making None])))) = [0, 2]"
proof -
  let ?w = "freshWorld [making None, None, making None]"
  have l: "calledSlots (trace ?w) = []" "liveSlots (disks ?w) = [0, 2]" "length (disks ?w) = 3"
    "disks ?w ! 1 = None"
    by code_simp+
  have e: "fst (MakeBucket_fanout scriptedEnv ''bucket'' ?w) = [None, Some errDiskNotFound, None]"
    "fst (getBucketInfo_fanout scriptedEnv ''bucket'' ?w)
       = [Some errVolumeNotFound, Some errDiskNotFound, Some errVolumeNotFound]"
    "fst (DeleteBucket_fanout scriptedEnv ''bucket'' False ?w) = [None, Some errDiskNotFound, None]"
    by code_simp+
  from fanout_absent_slot [of scriptedEnv "''bucket''" ?w False] e show ?thesis
    unfolding l by simp
qed

section \<open>getBucketInfo\<close>

text \<open>
  C5. When the error vector of the stat fan-out has a \<^verbatim>\<open>nil\<close> entry, getBucketInfo
  returns, with a \<^verbatim>\<open>nil\<close> error, the bucket info that \<^verbatim>\<open>StatVol\<close> gave on the first such
  slot in index order, whatever the read quorum is and whatever the other slots report.
\<close>

theorem getBucketInfo_first_success:
  fixes env :: "'d env" and w :: "'d world" and bucketName :: string
  defines "errs \<equiv> fst (getBucketInfo_fanout env bucketName w)"
  assumes "i < length (disks w)" and "errs ! i = None" and "\<forall>j<i. errs ! j \<noteq> None"
  shows "\<exists>d v. disks w ! i = Some d \<and> fst (StatVol env d bucketName) = Inr v
               \<and> (\<forall>q. fst (getBucketInfo (env\<lparr>getReadQuorum := q\<rparr>) bucketName w) = (v, None))"
proof -
  have len: "length errs = length (disks w)"
    by (simp add: errs_def getBucketInfo_fanout_eq)
  have fs: "firstSuccess 0 errs = Some i"
    using firstSuccess_index [of i errs 0] assms(2,3,4) len by simp
  obtain d v where dv: "disks w ! i = Some d" "fst (StatVol env d bucketName) = Inr v"
    "fst (snd (getBucketInfo_fanout env bucketName w)) ! i = v"
    using getBucketInfo_fanout_success [OF assms(2), of env bucketName] assms(3)
    unfolding errs_def by blast
  have "fst (getBucketInfo (env\<lparr>getReadQuorum := q\<rparr>) bucketName w) = (v, None)" for q
    using fs dv(3)
    by (cases "getBucketInfo_fanout env bucketName w")
       (simp add: getBucketInfo_def getBucketInfo_fanout_getReadQuorum errs_def)
  with dv(1,2) show ?thesis by blast
qed

theorem getBucketInfo_first_success_witness:
  "fst (getBucketInfo_fanout scriptedEnv ''bucket''
          (freshWorld [None, statting (Inr \<lparr>Name = ''bucket'', Created = 7\<rparr>), None]))
     = [Some errDiskNotFound, None, Some errDiskNotFound]
   \<and> getReadQuorum scriptedEnv 3 = 1
   \<and> fst (getBucketInfo scriptedEnv ''bucket''
            (freshWorld [None, statting (Inr \<lparr>Name = ''bucket'', Created = 7\<rparr>), None]))
       = (\<lparr>Name = ''bucket'', Created = 7\<rparr>, None)
   \<and> fst (getBucketInfo (scriptedEnv\<lparr>getReadQuorum := (\<lambda>n. n)\<rparr>) ''bucket''
            (freshWorld [None, statting (Inr \<lparr>Name = ''bucket'', Created = 7\<rparr>), None]))
       = (\<lparr>Name = ''bucket'', Created = 7\<rparr>, None)"
proof -
  let ?X = "\<lparr>Name = ''bucket'', Created = 7\<rparr>"
  let ?w = "freshWorld [None, statting (Inr ?X), None]"
  have e: "fst (getBucketInfo_fanout scriptedEnv ''bucket'' ?w)
             = [Some errDiskNotFound, None, Some errDiskNotFound]"
    by code_simp
  have q: "getReadQuorum scriptedEnv 3 = 1"
    by code_simp
  have h1: "1 < length (disks ?w)"
    by code_simp
  have h2: "fst (getBucketInfo_fanout scriptedEnv ''bucket'' ?w) ! 1 = None"
    unfolding e by simp
  have h3: "\<forall>j<1. fst (getBucketInfo_fanout scriptedEnv ''bucket'' ?w) ! j \<noteq> None"
    unfolding e by simp
  have d: "disks ?w ! 1 = statting (Inr ?X)" "fst (StatVol scriptedEnv (the (statting (Inr ?X))) ''bucket'') = Inr ?X"
    "statting (Inr ?X) \<noteq> None"
    by code_simp+
  have s: "scriptedEnv\<lparr>getReadQuorum := getReadQuorum scriptedEnv\<rparr> = scriptedEnv"
    by simp
  from getBucketInfo_first_success [OF h1 h2 h3] obtain d' v where
    a: "disks ?w ! 1 = Some d'" "fst (StatVol scriptedEnv d' ''bucket'') = Inr v"
       "\<forall>q. fst (getBucketInfo (scriptedEnv\<lparr>getReadQuorum := q\<rparr>) ''bucket'' ?w) = (v, None)"
    by blast
  from a(1,2) d have v: "v = ?X"
    by auto
  from a(3) [rule_format, of "getReadQuorum scriptedEnv"] a(3) [rule_format, of "\<lambda>n. n"] e q
  show ?thesis
    unfolding v s by simp
qed

text \<open>The reduction when every error is ignored, and MakeBucketWithLocation on a valid name.\<close>

lemma realErrs_all_ignored:
  "set errs \<subseteq> insert None (Some ` set ign) \<Longrightarrow> realErrs errs ign = []"
  by (induction errs) (auto simp: realErrs_def split: option.split)

lemma reduceWriteQuorumErrs_all_ignored:
  assumes "count_list errs None < q" "set errs \<subseteq> insert None (Some ` set ign)"
  shows "reduceWriteQuorumErrs errs ign q = Some errErasureWriteQuorum"
  using assms
  by (simp add: reduceWriteQuorumErrs_def reduceQuorumErrs_def realErrs_all_ignored dominantErr_def)

lemma MakeBucketWithLocation_valid:
  assumes "CheckValidBucketNameStrict env bucket = None"
  shows "fst (MakeBucketWithLocation env bucket w) =
           toObjectErr' env (reduceWriteQuorumErrs (fst (MakeBucket_fanout env bucket w)) bucketOpIgnoredErrs
                               (getWriteQuorum env (length (disks w)))) bucket"
  using assms
  by (cases "MakeBucket_fanout env bucket w") (simp add: MakeBucketWithLocation_def)

section \<open>The ignored errors of MakeBucketWithLocation and DeleteBucket\<close>

text \<open>
  C6 (as amended). The write-quorum reductions of MakeBucketWithLocation and DeleteBucket
  use \<^verbatim>\<open>bucketOpIgnoredErrs\<close>, the base set with disk access denied and unformatted disk
  added: the outcome of MakeBucketWithLocation is the translation of the reduction of its
  error vector over that set, and so is the outcome of DeleteBucket without force, unless
  the reduction is success or volume not found and a bucket left behind was moved. A
  slot that reports one of these five errors is ignored: when the successes are below
  the quorum and every error is one of them, the outcome is the write-quorum sentinel.
  The set does not hold \<^verbatim>\<open>errVolumeNotFound\<close>: a slot that reports volume not found is
  not ignored. It counts towards the dominant error, so that under a majority quorum,
  when at least a quorum of slots report volume not found, the reduction yields that
  error and the operation returns its translation (for DeleteBucket without force, when
  no live slot reports a volume that is not empty). The set
  \<^verbatim>\<open>bucketMetadataOpIgnoredErrs\<close>, which extends \<^verbatim>\<open>bucketOpIgnoredErrs\<close> with
  \<^verbatim>\<open>errVolumeNotFound\<close>, is declared in the file and used by neither operation.

  As stated (volume not found is ignored in these reductions) the claim fails: with four
  disks that all report volume not found, the reduction over the extended set would
  yield the write-quorum sentinel, and both operations return bucket not found.
\<close>

theorem bucket_ops_count_volume_not_found:
  fixes env :: "'d env" and w :: "'d world" and bucket :: string and opts :: DeleteBucketOptions
  defines "q \<equiv> getWriteQuorum env (length (disks w))"
  defines "mErrs \<equiv> fst (MakeBucket_fanout env bucket w)"
  defines "dErrs \<equiv> fst (DeleteBucket_fanout env bucket (Force opts) w)"
  defines "e \<equiv> reduceWriteQuorumErrs dErrs bucketOpIgnoredErrs q"
  assumes "length (disks w) < 2 * q"
  shows "errVolumeNotFound \<notin> set bucketOpIgnoredErrs
       \<and> set bucketMetadataOpIgnoredErrs = insert errVolumeNotFound (set bucketOpIgnoredErrs)
       \<and> (CheckValidBucketNameStrict env bucket = None \<and> q \<le> count_list mErrs (Some errVolumeNotFound) \<longrightarrow>
            fst (MakeBucketWithLocation env bucket w) = Some (toObjectErr env errVolumeNotFound bucket))
       \<and> (\<not> Force opts \<and> q \<le> count_list dErrs (Some errVolumeNotFound)
              \<and> notEmptySlots dErrs (disks w) = [] \<longrightarrow>
            fst (DeleteBucket env bucket opts w) = Some (toObjectErr env errVolumeNotFound bucket))
       \<and> set bucketOpIgnoredErrs =
            {errDiskNotFound, errFaultyDisk, errFaultyRemoteDisk, errDiskAccessDenied, errUnformattedDisk}
       \<and> (CheckValidBucketNameStrict env bucket = None \<longrightarrow>
            fst (MakeBucketWithLocation env bucket w) =
              toObjectErr' env (reduceWriteQuorumErrs mErrs bucketOpIgnoredErrs q) bucket)
       \<and> (\<not> Force opts \<longrightarrow>
            fst (DeleteBucket env bucket opts w) =
              toObjectErr' env (if (e = None \<or> e = Some errVolumeNotFound) \<and> notEmptySlots dErrs (disks w) \<noteq> []
                                then None else e) bucket)
       \<and> (CheckValidBucketNameStrict env bucket = None \<and> count_list mErrs None < q
              \<and> set mErrs \<subseteq> insert None (Some ` set bucketOpIgnoredErrs) \<longrightarrow>
            fst (MakeBucketWithLocation env bucket w) = Some (toObjectErr env errErasureWriteQuorum bucket))
       \<and> (\<not> Force opts \<and> count_list dErrs None < q
              \<and> set dErrs \<subseteq> insert None (Some ` set bucketOpIgnoredErrs) \<longrightarrow>
            fst (DeleteBucket env bucket opts w) = Some (toObjectErr env errErasureWriteQuorum bucket))"
proof (intro conjI impI)
  show "errVolumeNotFound \<notin> set bucketOpIgnoredErrs"
    by (rule notFound_counted)
  show "set bucketMetadataOpIgnoredErrs = insert errVolumeNotFound (set bucketOpIgnoredErrs)"
    by (simp add: bucketMetadataOpIgnoredErrs_def)
  show "set bucketOpIgnoredErrs =
          {errDiskNotFound, errFaultyDisk, errFaultyRemoteDisk, errDiskAccessDenied, errUnformattedDisk}"
    by (simp add: bucketOpIgnoredErrs_def baseIgnoredErrs_def)
next
  assume a: "CheckValidBucketNameStrict env bucket = None \<and> q \<le> count_list mErrs (Some errVolumeNotFound)"
  have "reduceWriteQuorumErrs mErrs bucketOpIgnoredErrs q = Some errVolumeNotFound"
    using notFound_counted a assms(5)
    by (intro reduceWriteQuorumErrs_majority) (simp_all add: mErrs_def length_MakeBucket_fanout)
  then show "fst (MakeBucketWithLocation env bucket w) = Some (toObjectErr env errVolumeNotFound bucket)"
    using a
    by (cases "MakeBucket_fanout env bucket w")
       (simp add: MakeBucketWithLocation_def mErrs_def q_def toObjectErr'_def)
next
  assume a: "\<not> Force opts \<and> q \<le> count_list dErrs (Some errVolumeNotFound)
              \<and> notEmptySlots dErrs (disks w) = []"
  from a have f: "\<not> Force opts" and c: "q \<le> count_list dErrs (Some errVolumeNotFound)"
    and n: "notEmptySlots dErrs (disks w) = []"
    by simp_all
  have len: "length dErrs = length (disks w)"
    unfolding dErrs_def by (rule length_DeleteBucket_fanout)
  have r: "e = Some errVolumeNotFound"
    unfolding e_def using notFound_counted c assms(5)
    by (intro reduceWriteQuorumErrs_majority) (simp_all add: len)
  note Q = DeleteBucket_quorum_mode(1) [OF f, of env bucket w, folded dErrs_def, folded q_def,
             folded e_def]
  show "fst (DeleteBucket env bucket opts w) = Some (toObjectErr env errVolumeNotFound bucket)"
    unfolding Q by (simp add: r n toObjectErr'_def)
next
  assume "CheckValidBucketNameStrict env bucket = None"
  then show "fst (MakeBucketWithLocation env bucket w) =
              toObjectErr' env (reduceWriteQuorumErrs mErrs bucketOpIgnoredErrs q) bucket"
    unfolding mErrs_def q_def by (rule MakeBucketWithLocation_valid)
next
  assume f: "\<not> Force opts"
  show "fst (DeleteBucket env bucket opts w) =
          toObjectErr' env (if (e = None \<or> e = Some errVolumeNotFound) \<and> notEmptySlots dErrs (disks w) \<noteq> []
                            then None else e) bucket"
    using DeleteBucket_quorum_mode(1) [OF f, of env bucket w, folded dErrs_def, folded q_def,
            folded e_def] .
next
  assume a: "CheckValidBucketNameStrict env bucket = None \<and> count_list mErrs None < q
              \<and> set mErrs \<subseteq> insert None (Some ` set bucketOpIgnoredErrs)"
  then have "reduceWriteQuorumErrs mErrs bucketOpIgnoredErrs q = Some errErasureWriteQuorum"
    by (intro reduceWriteQuorumErrs_all_ignored) simp_all
  with a show "fst (MakeBucketWithLocation env bucket w) = Some (toObjectErr env errErasureWriteQuorum bucket)"
    using MakeBucketWithLocation_valid [of env bucket w]
    by (simp add: mErrs_def q_def toObjectErr'_def)
next
  assume a: "\<not> Force opts \<and> count_list dErrs None < q
              \<and> set dErrs \<subseteq> insert None (Some ` set bucketOpIgnoredErrs)"
  then have f: "\<not> Force opts" by simp
  from a have r: "e = Some errErasureWriteQuorum"
    unfolding e_def by (intro reduceWriteQuorumErrs_all_ignored) simp_all
  note Q = DeleteBucket_quorum_mode(1) [OF f, of env bucket w, folded dErrs_def, folded q_def,
             folded e_def]
  show "fst (DeleteBucket env bucket opts w) = Some (toObjectErr env errErasureWriteQuorum bucket)"
    unfolding Q by (simp add: r toObjectErr'_def)
qed


theorem bucket_ops_count_volume_not_found_witness:
  "length (disks (deleteWorld [Some errVolumeNotFound, Some errVolumeNotFound, Some errVolumeNotFound, None]))
     < 2 * getWriteQuorum scriptedEnv 4
   \<and> fst (MakeBucket_fanout scriptedEnv ''bucket''
            (freshWorld [making (Some errVolumeNotFound), making (Some errVolumeNotFound),
                         making (Some errVolumeNotFound), None]))
       = [Some errVolumeNotFound, Some errVolumeNotFound, Some errVolumeNotFound, Some errDiskNotFound]
   \<and> fst (MakeBucketWithLocation scriptedEnv ''bucket''
            (freshWorld [making (Some errVolumeNotFound), making (Some errVolumeNotFound),
                         making (Some errVolumeNotFound), None]))
       = Some (BucketNotFound ''bucket'')
   \<and> fst (DeleteBucket_fanout scriptedEnv ''bucket'' False
            (deleteWorld [Some errVolumeNotFound, Some errVolumeNotFound, Some errVolumeNotFound, None]))
       = [Some errVolumeNotFound, Some errVolumeNotFound, Some errVolumeNotFound, None]
   \<and> fst (DeleteBucket scriptedEnv ''bucket'' quorumOpts
            (deleteWorld [Some errVolumeNotFound, Some errVolumeNotFound, Some errVolumeNotFound, None]))
       = Some (BucketNotFound ''bucket'')
   \<and> fst (MakeBucket_fanout scriptedEnv ''bucket''
            (freshWorld [making (Some errDiskAccessDenied), making (Some errDiskAccessDenied),
                         making (Some errDiskAccessDenied), making None]))
       = [Some errDiskAccessDenied, Some errDiskAccessDenied, Some errDiskAccessDenied, None]
   \<and> fst (MakeBucketWithLocation scriptedEnv ''bucket''
            (freshWorld [making (Some errDiskAccessDenied), making (Some errDiskAccessDenied),
                         making (Some errDiskAccessDenied), making None]))
       = Some InsufficientWriteQuorum
   \<and> fst (DeleteBucket_fanout scriptedEnv ''bucket'' False
            (deleteWorld [Some errDiskAccessDenied, Some errDiskAccessDenied, Some errDiskAccessDenied, None]))
       = [Some errDiskAccessDenied, Some errDiskAccessDenied, Some errDiskAccessDenied, None]
   \<and> fst (DeleteBucket scriptedEnv ''bucket'' quorumOpts
            (deleteWorld [Some errDiskAccessDenied, Some errDiskAccessDenied, Some errDiskAccessDenied, None]))
       = Some InsufficientWriteQuorum"
proof -
  let ?m = "freshWorld [making (Some errVolumeNotFound), making (Some errVolumeNotFound),
                        making (Some errVolumeNotFound), None]"
  let ?d = "deleteWorld [Some errVolumeNotFound, Some errVolumeNotFound, Some errVolumeNotFound, None]"
  let ?ma = "freshWorld [making (Some errDiskAccessDenied), making (Some errDiskAccessDenied),
                         making (Some errDiskAccessDenied), making None]"
  let ?da = "deleteWorld [Some errDiskAccessDenied, Some errDiskAccessDenied, Some errDiskAccessDenied, None]"
  have l: "length (disks ?m) = 4" "length (disks ?d) = 4" "length (disks ?ma) = 4" "length (disks ?da) = 4"
    "getWriteQuorum scriptedEnv 4 = 3"
    by code_simp+
  have h: "length (disks ?m) < 2 * getWriteQuorum scriptedEnv (length (disks ?m))"
    "length (disks ?d) < 2 * getWriteQuorum scriptedEnv (length (disks ?d))"
    "length (disks ?ma) < 2 * getWriteQuorum scriptedEnv (length (disks ?ma))"
    "length (disks ?da) < 2 * getWriteQuorum scriptedEnv (length (disks ?da))"
    unfolding l by simp_all
  have m: "fst (MakeBucket_fanout scriptedEnv ''bucket'' ?m)
             = [Some errVolumeNotFound, Some errVolumeNotFound, Some errVolumeNotFound, Some errDiskNotFound]"
    by code_simp
  have d: "fst (DeleteBucket_fanout scriptedEnv ''bucket'' (Force quorumOpts) ?d)
             = [Some errVolumeNotFound, Some errVolumeNotFound, Some errVolumeNotFound, None]"
    by code_simp
  have ma: "fst (MakeBucket_fanout scriptedEnv ''bucket'' ?ma)
             = [Some errDiskAccessDenied, Some errDiskAccessDenied, Some errDiskAccessDenied, None]"
    by code_simp
  have da: "fst (DeleteBucket_fanout scriptedEnv ''bucket'' (Force quorumOpts) ?da)
             = [Some errDiskAccessDenied, Some errDiskAccessDenied, Some errDiskAccessDenied, None]"
    by code_simp
  have n: "notEmptySlots [Some errVolumeNotFound, Some errVolumeNotFound, Some errVolumeNotFound, None]
             (disks ?d) = []"
    by code_simp
  have v: "CheckValidBucketNameStrict scriptedEnv ''bucket'' = None"
    "toObjectErr scriptedEnv errVolumeNotFound ''bucket'' = BucketNotFound ''bucket''"
    "toObjectErr scriptedEnv errErasureWriteQuorum ''bucket'' = InsufficientWriteQuorum"
    "\<not> Force quorumOpts"
    by code_simp+
  have ign: "Some errDiskAccessDenied \<in> Some ` set bucketOpIgnoredErrs"
    by (simp add: bucketOpIgnoredErrs_def baseIgnoredErrs_def)
  note M = bucket_ops_count_volume_not_found [where env = scriptedEnv and w = ?m and bucket = "''bucket''"
             and opts = quorumOpts, OF h(1), unfolded l m v,
             THEN conjunct2, THEN conjunct2, THEN conjunct1, THEN mp]
  note D = bucket_ops_count_volume_not_found [where env = scriptedEnv and w = ?d and bucket = "''bucket''"
             and opts = quorumOpts, OF h(2), unfolded l d n v,
             THEN conjunct2, THEN conjunct2, THEN conjunct2, THEN conjunct1, THEN mp]
  note MA = bucket_ops_count_volume_not_found [where env = scriptedEnv and w = ?ma and bucket = "''bucket''"
             and opts = quorumOpts, OF h(3), unfolded l ma v,
             THEN conjunct2, THEN conjunct2, THEN conjunct2, THEN conjunct2, THEN conjunct2,
             THEN conjunct2, THEN conjunct2, THEN conjunct1, THEN mp]
  note DA = bucket_ops_count_volume_not_found [where env = scriptedEnv and w = ?da and bucket = "''bucket''"
             and opts = quorumOpts, OF h(4), unfolded l da v,
             THEN conjunct2, THEN conjunct2, THEN conjunct2, THEN conjunct2, THEN conjunct2,
             THEN conjunct2, THEN conjunct2, THEN conjunct2, THEN mp]
  have "fst (MakeBucketWithLocation scriptedEnv ''bucket'' ?m) = Some (BucketNotFound ''bucket'')"
    by (rule M) simp
  moreover have "fst (DeleteBucket scriptedEnv ''bucket'' quorumOpts ?d) = Some (BucketNotFound ''bucket'')"
    by (rule D) (simp add: v(4))
  moreover have "fst (MakeBucketWithLocation scriptedEnv ''bucket'' ?ma) = Some InsufficientWriteQuorum"
    by (rule MA) (simp add: ign)
  moreover have "fst (DeleteBucket scriptedEnv ''bucket'' quorumOpts ?da) = Some InsufficientWriteQuorum"
    by (rule DA) (simp add: v(4) ign)
  ultimately show ?thesis
    using m d ma da v(4) l by simp
qed

theorem bucket_ops_count_volume_not_found_counterexample:
  "errVolumeNotFound \<notin> set bucketOpIgnoredErrs
   \<and> fst (DeleteBucket_fanout scriptedEnv ''bucket'' False
            (deleteWorld [Some errVolumeNotFound, Some errVolumeNotFound, Some errVolumeNotFound,
                          Some errVolumeNotFound]))
       = [Some errVolumeNotFound, Some errVolumeNotFound, Some errVolumeNotFound, Some errVolumeNotFound]
   \<and> reduceWriteQuorumErrs
         [Some errVolumeNotFound, Some errVolumeNotFound, Some errVolumeNotFound, Some errVolumeNotFound]
         bucketMetadataOpIgnoredErrs (getWriteQuorum scriptedEnv 4) = Some errErasureWriteQuorum
   \<and> reduceWriteQuorumErrs
         [Some errVolumeNotFound, Some errVolumeNotFound, Some errVolumeNotFound, Some errVolumeNotFound]
         bucketOpIgnoredErrs (getWriteQuorum scriptedEnv 4) = Some errVolumeNotFound
   \<and> fst (DeleteBucket scriptedEnv ''bucket'' quorumOpts
            (deleteWorld [Some errVolumeNotFound, Some errVolumeNotFound, Some errVolumeNotFound,
                          Some errVolumeNotFound]))
       = Some (BucketNotFound ''bucket'')
   \<and> fst (MakeBucketWithLocation scriptedEnv ''bucket''
            (freshWorld [making (Some errVolumeNotFound), making (Some errVolumeNotFound),
                         making (Some errVolumeNotFound), making (Some errVolumeNotFound)]))
       = Some (BucketNotFound ''bucket'')"
  by code_simp

end
